theory Spec2Isabelle
  imports Main "HOL-Library.Sublist"
begin

section \<open>JavaScript values, errors and loggers\<close>

text \<open>
  Exceptions and rejected promises are values of type \<open>error\<close>; a computation that may
  throw returns \<open>error + 'a\<close> with \<open>Inl\<close> for the throw. \<open>TypeError\<close> is what the
  JavaScript runtime raises on a property read of \<open>undefined\<close>/\<open>null\<close>, on \<open>in\<close> applied
  to a primitive and on a call of a non-function; \<open>Error\<close> is \<open>new Error(message)\<close>;
  \<open>AggregateError\<close> is \<open>new AggregateError(errors, message)\<close>; \<open>ReferenceError\<close> is raised
  by a disposed disposable stack; \<open>Rejected\<close> is a failure raised by a collaborator
  (a user callback, a transport, a module import).
\<close>

datatype error =
    TypeError string
  | Error string
  | AggregateError "string list" string
  | ReferenceError string
  | Rejected string

text \<open>
  The values a transport module and its members can be. \<open>'f\<close> is the type of callables.
\<close>

datatype 'f jsval =
    JUndefined
  | JNull
  | JBool bool
  | JNum int
  | JStr string
  | JObj "(string \<times> 'f jsval) list"
  | JFun 'f

text \<open>JavaScript truthiness (\<open>if (v)\<close>, \<open>!v\<close>).\<close>

fun truthy :: "'f jsval \<Rightarrow> bool" where
  "truthy JUndefined = False"
| "truthy JNull = False"
| "truthy (JBool b) = b"
| "truthy (JNum n) = (n \<noteq> 0)"
| "truthy (JStr s) = (s \<noteq> [])"
| "truthy (JObj ps) = True"
| "truthy (JFun f) = True"

text \<open>\<open>typeof v === 'function'\<close>.\<close>

fun is_function :: "'f jsval \<Rightarrow> bool" where
  "is_function (JFun f) = True"
| "is_function v = False"

text \<open>
  \<open>name in v\<close>: throws on a primitive, looks the key up on an object; a function value
  carries no own properties here.
\<close>

fun js_in :: "string \<Rightarrow> 'f jsval \<Rightarrow> error + bool" where
  "js_in name (JObj ps) = Inr (name \<in> fst ` set ps)"
| "js_in name (JFun f) = Inr False"
| "js_in name v = Inl (TypeError ''Cannot use in operator to search for a key in a primitive'')"

text \<open>
  \<open>v.name\<close>: throws on \<open>undefined\<close> and \<open>null\<close>, is \<open>undefined\<close> for a missing key and for
  the other primitives and functions (none of the names read here is inherited).
\<close>

fun js_get :: "'f jsval \<Rightarrow> string \<Rightarrow> error + 'f jsval" where
  "js_get JUndefined name = Inl (TypeError (''Cannot read properties of undefined, reading '' @ name))"
| "js_get JNull name = Inl (TypeError (''Cannot read properties of null, reading '' @ name))"
| "js_get (JObj ps) name = Inr (case map_of ps name of None \<Rightarrow> JUndefined | Some v \<Rightarrow> v)"
| "js_get v name = Inr JUndefined"

text \<open>
  A logger. Log output is not modelled; what matters is whether the logger object exists
  and whether it has the \<open>child\<close> method (\<open>logger.child?.(name)\<close>), because a method call on
  an absent logger throws. A child logger has the shape of its parent.
\<close>

datatype logger = Logger (has_child: bool)

definition child_opt :: "logger \<Rightarrow> logger option" where
  "child_opt l = (if has_child l then Some l else None)"

definition dq :: string where
  "dq = [CHR 0x22]"

section \<open>Transport executor factory registry (\<open>createTransportExecutorFactoryGetter\<close>)\<close>

text \<open>
  \<open>transports\<close> is a function of the kind, a mapping from kinds, or absent. A function may
  throw or reject, a mapping's member may be a promise that rejects.
\<close>

datatype 'f transports =
    TransportsFn "string \<Rightarrow> error + 'f jsval"
  | TransportsMap "(string \<times> (error + 'f jsval)) list"
  | NoTransports

text \<open>
  \<open>typeof transports === 'function' ? await transports(kind) : await transports?.[kind]\<close>
\<close>

fun inline_transport :: "'f transports \<Rightarrow> string \<Rightarrow> error + 'f jsval" where
  "inline_transport (TransportsFn f) kind = f kind"
| "inline_transport (TransportsMap m) kind =
     (case map_of m kind of None \<Rightarrow> Inr JUndefined | Some v \<Rightarrow> v)"
| "inline_transport NoTransports kind = Inr JUndefined"

text \<open>
  \<open>'default' in transport ? transport.default.getSubgraphExecutor
     : transport.getSubgraphExecutor\<close>
\<close>

definition select_getSubgraphExecutor :: "'f jsval \<Rightarrow> error + 'f jsval" where
  "select_getSubgraphExecutor transport =
     (case js_in ''default'' transport of
        Inl e \<Rightarrow> Inl e
      | Inr True \<Rightarrow>
          (case js_get transport ''default'' of
             Inl e \<Rightarrow> Inl e
           | Inr d \<Rightarrow> js_get d ''getSubgraphExecutor'')
      | Inr False \<Rightarrow> js_get transport ''getSubgraphExecutor'')"

definition transport_module :: "string \<Rightarrow> string" where
  "transport_module kind = ''@graphql-mesh/transport-'' @ kind"

definition not_found_message :: "string \<Rightarrow> string" where
  "not_found_message kind =
     ''No transport found for '' @ kind @ ''. Please make sure you have installed ''
       @ transport_module kind @ '' or defined the transport config in '' @ dq @ ''mesh.config.ts'' @ dq"

definition not_exported_message :: "string \<Rightarrow> string" where
  "not_exported_message kind =
     transport_module kind @ '' module does not export '' @ dq @ ''getSubgraphExecutor'' @ dq"

definition not_a_function_message :: "string \<Rightarrow> string" where
  "not_a_function_message kind =
     transport_module kind @ '' module'' @ [CHR 0x27] @ ''s export '' @ dq @ ''getSubgraphExecutor'' @ dq
       @ '' is not a function''"

text \<open>
  \<open>getTransport(kind)\<close>, the function \<open>createTransportExecutorFactoryGetter(transports,
  logger)\<close> returns. \<open>logger\<close> is what the caller passes, \<open>transportContext?.logger\<close>, so it
  may be absent. \<open>import_module\<close> is the dynamic \<open>import()\<close> of a module specifier: the
  module's namespace object, or the failure.
\<close>

definition getTransport ::
  "'f transports \<Rightarrow> logger option \<Rightarrow> (string \<Rightarrow> error + 'f jsval) \<Rightarrow> string \<Rightarrow> error + 'f jsval"
where
  "getTransport transports logger import_module kind =
     (case inline_transport transports kind of
        Inl e \<Rightarrow> Inl e
      | Inr transport \<Rightarrow>
          if truthy transport then select_getSubgraphExecutor transport
          else
            (case logger of
               None \<Rightarrow> Inl (TypeError ''Cannot read properties of undefined, reading child'')
             | Some l \<Rightarrow>
                 (case import_module (transport_module kind) of
                    Inl err \<Rightarrow>
                      (case child_opt l of
                         None \<Rightarrow> Inl (TypeError ''Cannot read properties of undefined, reading error'')
                       | Some childLogger \<Rightarrow> Inl (Error (not_found_message kind)))
                  | Inr imported \<Rightarrow>
                      (case select_getSubgraphExecutor imported of
                         Inl e \<Rightarrow> Inl e
                       | Inr g \<Rightarrow>
                           if \<not> truthy g then Inl (Error (not_exported_message kind))
                           else if \<not> is_function g then Inl (Error (not_a_function_message kind))
                           else Inr g))))"

section \<open>Requests, executors and hooks\<close>

text \<open>
  Execution requests are objects that the pipeline mutates and that refer to their
  resolver info object, which refers back. They live in a store: a list of objects, a
  reference being an index. \<open>rq_requestId\<close> is the result of
  \<open>executionRequest.context?.request && requestIdByRequest.get(...)\<close>.
\<close>

datatype obj =
    RequestObj (rq_operationName: string) (rq_requestId: "string option") (rq_info: "nat option")
  | InfoObj (in_fieldName: "string option") (in_executionRequest: "nat option")

text \<open>
  An executor returns a single result or an async iterable of results (a finite stream
  here), or throws. Executors are named so that a record of calls can tell them apart;
  \<open>ex_disposable\<close> is \<open>isDisposable(executor)\<close>.
\<close>

datatype 'r exec_result = Single 'r | Stream "'r list"

datatype 'r executor =
  Executor (ex_name: string) (ex_disposable: bool)
    (ex_run: "obj list \<Rightarrow> nat \<Rightarrow> error + 'r exec_result")

text \<open>
  Hooks are user code. A hook is modelled by its name and its body: the calls it makes to
  the setters of its payload, in order, and the value it returns. A body does not catch
  what a setter throws, and does not write to the store.

  \<^item> \<open>OnSubgraphExecuteDoneResultOnNext\<close>: given \<open>payload.result\<close>, the values passed to
    \<open>setResult\<close>.
  \<^item> \<open>OnSubgraphExecuteDoneResult\<close>: the optional \<open>onNext\<close> and \<open>onEnd\<close>.
  \<^item> \<open>OnSubgraphExecuteDoneHook\<close>: given \<open>payload.result\<close>, the values passed to
    \<open>setResult\<close> and the returned \<open>OnSubgraphExecuteDoneResult\<close>, if any.
  \<^item> \<open>OnSubgraphExecuteHook\<close>: given the payload, the setter calls and the returned done
    hook, if any.
\<close>

type_synonym 'r onNextHook = "string \<times> ('r \<Rightarrow> 'r list)"

datatype 'r done_result =
  DoneResult (onNext: "'r onNextHook option") (onEnd: "string option")

type_synonym 'r doneHook =
  "string \<times> ('r exec_result \<Rightarrow> 'r exec_result list \<times> 'r done_result option)"

datatype 'r setter_call = SetExecutionRequest nat | SetExecutor "'r executor"

record transport_entry =
  te_kind :: string
  te_location :: "string option"

record 'r payload =
  pl_subgraph :: string
  pl_subgraphName :: string
  pl_transportEntry :: "transport_entry option"
  pl_executionRequest :: nat
  pl_executor :: "'r executor"
  pl_requestId :: "string option"
  pl_logger :: "logger option"

type_synonym 'r preHook =
  "string \<times> ('r payload \<Rightarrow> 'r setter_call list \<times> 'r doneHook option)"

text \<open>What the collaborators did, in order.\<close>

datatype event =
    GetterCalled string
  | FactoryCalled string string
  | StackUse string
  | PreHookCalled string
  | ExecutorCalled string nat
  | DoneHookCalled string
  | OnNextCalled string
  | Yielded
  | OnEndCalled string

text \<open>
  What the wrapped executor returns: the executor's (or a done hook's) result itself, or
  the stream \<open>mapAsyncIterator\<close> builds over the result's iterator, which captures the
  \<open>onNext\<close> hooks, the \<open>onEnd\<close> hooks and the request's logger.
\<close>

datatype 'r wrapped_result =
    Unchanged "'r exec_result"
  | Mapped "'r list" "'r onNextHook list" "string list" "logger option"

record transport_context =
  tc_logger :: "logger option"

text \<open>The options of \<open>wrapExecutorWithHooks\<close> other than the executor.\<close>

record 'r wrap_options =
  wo_onSubgraphExecuteHooks :: "'r preHook list"
  wo_subgraphName :: string
  wo_transportEntryMap :: "(string \<Rightarrow> transport_entry option) option"
  wo_getSubgraphSchema :: "string \<Rightarrow> string"
  wo_transportContext :: "transport_context option"

section \<open>The hook pipeline (\<open>wrapExecutorWithHooks\<close>)\<close>

text \<open>
  \<open>executionRequest.info = executionRequest.info || {};
   executionRequest.info.executionRequest = executionRequest;\<close>
  A new info object is allocated at the end of the store. References outside the store or
  to an object of the wrong kind do not occur in the program; the model stops there.
\<close>

definition attach :: "obj list \<Rightarrow> nat \<Rightarrow> error + obj list" where
  "attach h a =
     (if a < length h then
        (case h ! a of
           RequestObj n rid io \<Rightarrow>
             (case io of
                None \<Rightarrow>
                  Inr ((h[a := RequestObj n rid (Some (length h))]) @ [InfoObj None (Some a)])
              | Some i \<Rightarrow>
                  (if i < length h then
                     (case h ! i of
                        InfoObj f r \<Rightarrow> Inr (h[i := InfoObj f (Some a)])
                      | RequestObj n' rid' io' \<Rightarrow> Inl (Rejected ''info is not an info object''))
                   else Inl (Rejected ''dangling info reference'')))
         | InfoObj f r \<Rightarrow> Inl (Rejected ''not an execution request''))
      else Inl (Rejected ''dangling request reference''))"

text \<open>\<open>transportContext?.logger?.child?.(subgraphName)\<close>\<close>

definition execReqLogger_of :: "transport_context option \<Rightarrow> logger option" where
  "execReqLogger_of tc =
     (case tc of
        None \<Rightarrow> None
      | Some c \<Rightarrow> (case tc_logger c of None \<Rightarrow> None | Some l \<Rightarrow> child_opt l))"

text \<open>
  The setters \<open>setExecutionRequest\<close>, \<open>setExecutor\<close> and \<open>setResult\<close> all start with
  \<open>execReqLogger.debug(...)\<close> and then assign the variable. \<open>assign_all\<close> runs the calls
  one body makes to one setter-like variable.
\<close>

definition debug_log :: "logger option \<Rightarrow> error option" where
  "debug_log lg =
     (case lg of
        None \<Rightarrow> Some (TypeError ''Cannot read properties of undefined, reading debug'')
      | Some l \<Rightarrow> None)"

fun assign_all :: "logger option \<Rightarrow> 'a list \<Rightarrow> 'a \<Rightarrow> error + 'a" where
  "assign_all lg [] cur = Inr cur"
| "assign_all lg (v # vs) cur =
     (case debug_log lg of Some e \<Rightarrow> Inl e | None \<Rightarrow> assign_all lg vs v)"

text \<open>The variables of one run of \<open>executorWithHooks\<close> that the pre-hooks share.\<close>

record 'r pvars =
  pv_executionRequest :: nat
  pv_executor :: "'r executor"
  pv_doneHooks :: "'r doneHook list"
  pv_trace :: "event list"

text \<open>
  The assignments of the two setters: \<open>executionRequest = newExecutionRequest\<close> and
  \<open>executor = newExecutor\<close>.
\<close>

definition assign_variable :: "'r pvars \<Rightarrow> 'r setter_call \<Rightarrow> 'r pvars" where
  "assign_variable pv c =
     (case c of
        SetExecutionRequest r \<Rightarrow> pv\<lparr>pv_executionRequest := r\<rparr>
      | SetExecutor e \<Rightarrow> pv\<lparr>pv_executor := e\<rparr>)"

fun apply_setter_calls ::
  "logger option \<Rightarrow> 'r setter_call list \<Rightarrow> 'r pvars \<Rightarrow> error option \<times> 'r pvars"
where
  "apply_setter_calls lg [] pv = (None, pv)"
| "apply_setter_calls lg (c # cs) pv =
     (case debug_log lg of
        Some e \<Rightarrow> (Some e, pv)
      | None \<Rightarrow> apply_setter_calls lg cs (assign_variable pv c))"

text \<open>The payload a pre-hook receives: built anew for each hook from the current variables.\<close>

definition hook_payload ::
  "'r wrap_options \<Rightarrow> string option \<Rightarrow> logger option \<Rightarrow> 'r pvars \<Rightarrow> 'r payload"
where
  "hook_payload opts requestId lg pv =
     \<lparr> pl_subgraph = wo_getSubgraphSchema opts (wo_subgraphName opts),
       pl_subgraphName = wo_subgraphName opts,
       pl_transportEntry =
         (case wo_transportEntryMap opts of None \<Rightarrow> None | Some m \<Rightarrow> m (wo_subgraphName opts)),
       pl_executionRequest = pv_executionRequest pv,
       pl_executor = pv_executor pv,
       pl_requestId = requestId,
       pl_logger = lg \<rparr>"

text \<open>
  Modelled from the spec: \<open>iterateAsync\<close> and \<open>mapMaybePromise\<close> (package utils) are not
  under src/. \<open>iterateAsync(items, callback, results)\<close> calls the callback on each item in
  order, each call after the previous one has settled, appends what a call returns to
  \<open>results\<close> unless it is absent, and stops at the first throw; \<open>mapMaybePromise(value,
  callback)\<close> calls the callback on the value once it has settled and passes a failure on.

  \<open>iterateAsync(onSubgraphExecuteHooks, hook => hook(payload), onSubgraphExecuteDoneHooks)\<close>
\<close>

fun run_pre_hooks ::
  "'r wrap_options \<Rightarrow> string option \<Rightarrow> logger option \<Rightarrow> 'r preHook list \<Rightarrow> 'r pvars
     \<Rightarrow> error option \<times> 'r pvars"
where
  "run_pre_hooks opts rid lg [] pv = (None, pv)"
| "run_pre_hooks opts rid lg (h # hs) pv =
     (case snd h (hook_payload opts rid lg pv) of
        (calls, ret) \<Rightarrow>
          (case apply_setter_calls lg calls (pv\<lparr>pv_trace := pv_trace pv @ [PreHookCalled (fst h)]\<rparr>) of
             (Some e, pv') \<Rightarrow> (Some e, pv')
           | (None, pv') \<Rightarrow>
               run_pre_hooks opts rid lg hs
                 (case ret of
                    None \<Rightarrow> pv'
                  | Some d \<Rightarrow> pv'\<lparr>pv_doneHooks := pv_doneHooks pv' @ [d]\<rparr>)))"

text \<open>\<open>executor(executionRequest)\<close>, recorded.\<close>

definition call_executor ::
  "'r executor \<Rightarrow> obj list \<Rightarrow> nat \<Rightarrow> event list \<Rightarrow> (error + 'r exec_result) \<times> event list"
where
  "call_executor ex h a tr = (ex_run ex h a, tr @ [ExecutorCalled (ex_name ex) a])"

text \<open>
  \<open>iterateAsync(onSubgraphExecuteDoneHooks, done => done({result: currentResult,
  setResult}), executeDoneResults)\<close>
\<close>

fun run_done_hooks ::
  "logger option \<Rightarrow> 'r doneHook list \<Rightarrow> 'r exec_result \<Rightarrow> 'r done_result list \<Rightarrow> event list
     \<Rightarrow> (error + 'r exec_result \<times> 'r done_result list) \<times> event list"
where
  "run_done_hooks lg [] cur rs tr = (Inr (cur, rs), tr)"
| "run_done_hooks lg (d # ds) cur rs tr =
     (case snd d cur of
        (sets, ret) \<Rightarrow>
          (case assign_all lg sets cur of
             Inl e \<Rightarrow> (Inl e, tr @ [DoneHookCalled (fst d)])
           | Inr cur' \<Rightarrow>
               run_done_hooks lg ds cur'
                 (case ret of None \<Rightarrow> rs | Some r \<Rightarrow> rs @ [r])
                 (tr @ [DoneHookCalled (fst d)])))"

text \<open>
  The loop over \<open>executeDoneResults\<close> that fills \<open>onNextHooks\<close> and \<open>onEndHooks\<close>.
\<close>

fun collect_onNext :: "'r done_result list \<Rightarrow> 'r onNextHook list" where
  "collect_onNext [] = []"
| "collect_onNext (r # rs) =
     (case onNext r of None \<Rightarrow> collect_onNext rs | Some n \<Rightarrow> n # collect_onNext rs)"

fun collect_onEnd :: "'r done_result list \<Rightarrow> string list" where
  "collect_onEnd [] = []"
| "collect_onEnd (r # rs) =
     (case onEnd r of None \<Rightarrow> collect_onEnd rs | Some e \<Rightarrow> e # collect_onEnd rs)"

text \<open>The last callback: what is returned once the done hooks have run.\<close>

definition finish_result ::
  "logger option \<Rightarrow> 'r exec_result \<Rightarrow> 'r done_result list \<Rightarrow> 'r wrapped_result"
where
  "finish_result lg cur rs =
     (case cur of
        Single x \<Rightarrow> Unchanged cur
      | Stream xs \<Rightarrow>
          if rs = [] then Unchanged cur
          else if collect_onNext rs = [] \<and> collect_onEnd rs = [] then Unchanged cur
          else Mapped xs (collect_onNext rs) (collect_onEnd rs) lg)"

text \<open>
  The state \<open>executorWithHooks\<close> works on: the store of request objects, the weak map
  \<open>loggerForExecutionRequest\<close>, and the record of calls.
\<close>

record pstate =
  ps_heap :: "obj list"
  ps_loggerFor :: "nat \<Rightarrow> logger option"
  ps_trace :: "event list"

text \<open>
  \<open>executorWithHooks(executionRequest)\<close>, the function \<open>wrapExecutorWithHooks\<close> returns.
  \<open>executor\<close> is a variable of the enclosing call of \<open>wrapExecutorWithHooks\<close>, shared by
  all runs of \<open>executorWithHooks\<close>: the function takes its current value and returns the
  new one with the outcome and the state.
\<close>

definition executorWithHooks ::
  "'r wrap_options \<Rightarrow> 'r executor \<Rightarrow> nat \<Rightarrow> 'z pstate_scheme
     \<Rightarrow> (error + 'r wrapped_result) \<times> 'r executor \<times> 'z pstate_scheme"
where
  "executorWithHooks opts executor a st =
     (case attach (ps_heap st) a of
        Inl e \<Rightarrow> (Inl e, executor, st)
      | Inr h \<Rightarrow>
          (let requestId = (case h ! a of RequestObj n rid io \<Rightarrow> rid | InfoObj f r \<Rightarrow> None);
               lg = execReqLogger_of (wo_transportContext opts);
               st1 = st\<lparr>ps_heap := h,
                        ps_loggerFor :=
                          (case lg of None \<Rightarrow> ps_loggerFor st | Some l \<Rightarrow> (ps_loggerFor st)(a := Some l))\<rparr>
           in
             if wo_onSubgraphExecuteHooks opts = [] then
               (case call_executor executor h a (ps_trace st1) of
                  (res, tr) \<Rightarrow> (map_sum id Unchanged res, executor, st1\<lparr>ps_trace := tr\<rparr>))
             else
               (case run_pre_hooks opts requestId lg (wo_onSubgraphExecuteHooks opts)
                       \<lparr>pv_executionRequest = a, pv_executor = executor, pv_doneHooks = [],
                        pv_trace = ps_trace st1\<rparr> of
                  (Some e, pv) \<Rightarrow> (Inl e, pv_executor pv, st1\<lparr>ps_trace := pv_trace pv\<rparr>)
                | (None, pv) \<Rightarrow>
                    (case call_executor (pv_executor pv) h (pv_executionRequest pv) (pv_trace pv) of
                       (res, tr) \<Rightarrow>
                         if pv_doneHooks pv = [] then
                           (map_sum id Unchanged res, pv_executor pv, st1\<lparr>ps_trace := tr\<rparr>)
                         else
                           (case res of
                              Inl e \<Rightarrow> (Inl e, pv_executor pv, st1\<lparr>ps_trace := tr\<rparr>)
                            | Inr currentResult \<Rightarrow>
                                (case run_done_hooks lg (pv_doneHooks pv) currentResult [] tr of
                                   (Inl e, tr') \<Rightarrow> (Inl e, pv_executor pv, st1\<lparr>ps_trace := tr'\<rparr>)
                                 | (Inr (cur, rs), tr') \<Rightarrow>
                                     (Inr (finish_result lg cur rs), pv_executor pv,
                                      st1\<lparr>ps_trace := tr'\<rparr>)))))))"


section \<open>Consuming a wrapped stream\<close>

text \<open>
  Modelled from the spec: \<open>mapAsyncIterator\<close> is not under src/.
  \<open>mapAsyncIterator(iterator, onNext, undefined, onEnd)\<close> passes each item the iterator
  yields through \<open>onNext\<close> before the consumer gets it, and calls \<open>onEnd\<close> once when the
  iterator is done. A throw from \<open>onNext\<close> ends the stream with that error.

  The \<open>onNext\<close> callback of the source:
  \<open>currentResult => mapMaybePromise(iterateAsync(onNextHooks, onNext => onNext({result:
  currentResult, setResult})), () => currentResult)\<close>
\<close>

fun run_onNext ::
  "logger option \<Rightarrow> 'r onNextHook list \<Rightarrow> 'r \<Rightarrow> event list \<Rightarrow> (error + 'r) \<times> event list"
where
  "run_onNext lg [] x tr = (Inr x, tr)"
| "run_onNext lg (n # ns) x tr =
     (case assign_all lg (snd n x) x of
        Inl e \<Rightarrow> (Inl e, tr @ [OnNextCalled (fst n)])
      | Inr y \<Rightarrow> run_onNext lg ns y (tr @ [OnNextCalled (fst n)]))"

text \<open>
  The \<open>onEnd\<close> callback of the source:
  \<open>() => onEndHooks.length === 0 ? undefined : iterateAsync(onEndHooks, onEnd => onEnd())\<close>
\<close>

definition run_onEnd :: "string list \<Rightarrow> event list \<Rightarrow> event list" where
  "run_onEnd ends tr = (if ends = [] then tr else tr @ map OnEndCalled ends)"

text \<open>
  A consumer that reads the mapped stream to its end: the error that ended it, if any,
  the items the consumer received, and the record of calls.
\<close>

fun consume_mapped ::
  "logger option \<Rightarrow> 'r onNextHook list \<Rightarrow> string list \<Rightarrow> 'r list \<Rightarrow> event list
     \<Rightarrow> error option \<times> 'r list \<times> event list"
where
  "consume_mapped lg nexts ends [] tr = (None, [], run_onEnd ends tr)"
| "consume_mapped lg nexts ends (x # xs) tr =
     (case run_onNext lg nexts x tr of
        (Inl e, tr') \<Rightarrow> (Some e, [], tr')
      | (Inr y, tr') \<Rightarrow>
          (case consume_mapped lg nexts ends xs (tr' @ [Yielded]) of
             (err, ys, tr'') \<Rightarrow> (err, y # ys, tr'')))"

fun consume :: "'r wrapped_result \<Rightarrow> event list \<Rightarrow> error option \<times> 'r list \<times> event list" where
  "consume (Unchanged (Stream xs)) tr = (None, xs, tr @ map (\<lambda>x. Yielded) xs)"
| "consume (Unchanged (Single x)) tr = (Some (TypeError ''result is not async iterable''), [], tr)"
| "consume (Mapped xs nexts ends lg) tr = consume_mapped lg nexts ends xs tr"

section \<open>The lazy subgraph executor cache (\<open>getOnSubgraphExecute\<close>)\<close>

text \<open>
  \<open>TransportGetSubgraphExecutorOptions\<close>, the context a transport factory receives. The
  getters \<open>subgraph\<close> and \<open>transportEntry\<close> read \<open>getSubgraphSchema\<close> and the entry map when
  they are read; both are fixed here, so the context holds their values. The field
  \<open>transportExecutorFactoryGetter\<close> is left out.
\<close>

record exec_ctx =
  ctx_subgraphName :: string
  ctx_subgraph :: string
  ctx_transportEntry :: "transport_entry option"
  ctx_logger :: "logger option"

type_synonym 'r factory = "exec_ctx \<Rightarrow> error + 'r executor"

text \<open>
  The arguments of \<open>getOnSubgraphExecute\<close> (the disposable stack is part of the state),
  and the environment's dynamic \<open>import()\<close>.
\<close>

record 'r runtime_options =
  go_onSubgraphExecuteHooks :: "'r preHook list"
  go_transports :: "'r factory transports"
  go_transportContext :: "transport_context option"
  go_transportEntryMap :: "(string \<Rightarrow> transport_entry option) option"
  go_getSubgraphSchema :: "string \<Rightarrow> string"
  go_import :: "string \<Rightarrow> error + 'r factory jsval"

text \<open>
  An entry of \<open>subgraphExecutorMap\<close>: the \<open>lazyExecutor\<close> closure of its subgraph, or the
  \<open>executorWithHooks\<close> closure with the current value of its \<open>executor\<close> variable.
\<close>

datatype 'r cache_entry = LazyExecutor | ExecutorWithHooks "'r executor"

record 'r rstate = pstate +
  rs_cache :: "string \<Rightarrow> 'r cache_entry option"
  rs_stack :: "'r executor list"
  rs_disposed :: bool

definition context_logger :: "transport_context option \<Rightarrow> logger option" where
  "context_logger tc = (case tc of None \<Rightarrow> None | Some c \<Rightarrow> tc_logger c)"

definition make_ctx :: "'r runtime_options \<Rightarrow> string \<Rightarrow> exec_ctx" where
  "make_ctx opts subgraphName =
     \<lparr> ctx_subgraphName = subgraphName,
       ctx_subgraph = go_getSubgraphSchema opts subgraphName,
       ctx_transportEntry =
         (case go_transportEntryMap opts of None \<Rightarrow> None | Some m \<Rightarrow> m subgraphName),
       ctx_logger = context_logger (go_transportContext opts) \<rparr>"

text \<open>\<open>transportContext.transportEntry?.kind || ''\<close>\<close>

definition kind_of :: "exec_ctx \<Rightarrow> string" where
  "kind_of ctx = (case ctx_transportEntry ctx of None \<Rightarrow> [] | Some te \<Rightarrow> te_kind te)"

definition wrap_options_of :: "'r runtime_options \<Rightarrow> string \<Rightarrow> 'r wrap_options" where
  "wrap_options_of opts subgraphName =
     \<lparr> wo_onSubgraphExecuteHooks = go_onSubgraphExecuteHooks opts,
       wo_subgraphName = subgraphName,
       wo_transportEntryMap = go_transportEntryMap opts,
       wo_getSubgraphSchema = go_getSubgraphSchema opts,
       wo_transportContext = go_transportContext opts \<rparr>"

text \<open>\<open>transportExecutorStack.use(executor)\<close>: a disposed stack throws.\<close>

definition stack_use :: "'r executor \<Rightarrow> 'r rstate \<Rightarrow> error option \<times> 'r rstate" where
  "stack_use ex st =
     (if rs_disposed st then (Some (ReferenceError ''the stack is already disposed''), st)
      else (None, st\<lparr>rs_stack := rs_stack st @ [ex],
                     ps_trace := ps_trace st @ [StackUse (ex_name ex)]\<rparr>))"

text \<open>
  \<open>getTransportExecutor(transportExecutorFactoryGetter, transportContext,
  transportExecutorStack)\<close> has two parts. The first runs when it is called: it calls the
  factory getter with the kind. The getter is an \<open>async\<close> function that awaits at once,
  so the caller is suspended there.
\<close>

definition getTransportExecutor_begin :: "exec_ctx \<Rightarrow> 'r rstate \<Rightarrow> 'r rstate" where
  "getTransportExecutor_begin transportContext st =
     st\<lparr>ps_trace := ps_trace st @ [GetterCalled (kind_of transportContext)]\<rparr>"

text \<open>
  The second part runs when the getter has settled: the factory it resolved is called
  with the context, and a disposable executor is registered with the stack.
\<close>

definition getTransportExecutor_resume ::
  "(string \<Rightarrow> error + 'r factory jsval) \<Rightarrow> exec_ctx \<Rightarrow> 'r rstate
     \<Rightarrow> (error + 'r executor) \<times> 'r rstate"
where
  "getTransportExecutor_resume transportExecutorFactoryGetter transportContext st =
     (case transportExecutorFactoryGetter (kind_of transportContext) of
        Inl e \<Rightarrow> (Inl e, st)
      | Inr g \<Rightarrow>
          (case g of
             JFun f \<Rightarrow>
               (let st1 = st\<lparr>ps_trace := ps_trace st @
                             [FactoryCalled (kind_of transportContext) (ctx_subgraphName transportContext)]\<rparr>
                in
                  case f transportContext of
                    Inl e \<Rightarrow> (Inl e, st1)
                  | Inr executor \<Rightarrow>
                      (if ex_disposable executor then
                         (case stack_use executor st1 of
                            (Some e, st2) \<Rightarrow> (Inl e, st2)
                          | (None, st2) \<Rightarrow> (Inr executor, st2))
                       else (Inr executor, st1)))
           | _ \<Rightarrow> (Inl (TypeError ''executor is not a function''), st)))"

text \<open>
  The factory getter of a runtime:
  \<open>createTransportExecutorFactoryGetter(transports, transportContext?.logger)\<close>.
\<close>

definition factory_getter :: "'r runtime_options \<Rightarrow> string \<Rightarrow> error + 'r factory jsval" where
  "factory_getter opts =
     getTransport (go_transports opts) (context_logger (go_transportContext opts)) (go_import opts)"

text \<open>
  A call of \<open>lazyExecutor\<close> is suspended in \<open>getTransportExecutor\<close>; when it is resumed
  with an executor, the callback wraps the executor with the hooks, caches the wrapped
  executor and forwards the request to it.
\<close>

definition lazy_begin :: "'r runtime_options \<Rightarrow> string \<Rightarrow> 'r rstate \<Rightarrow> 'r rstate" where
  "lazy_begin opts subgraphName st = getTransportExecutor_begin (make_ctx opts subgraphName) st"

definition lazy_resume ::
  "'r runtime_options \<Rightarrow> string \<Rightarrow> nat \<Rightarrow> 'r rstate \<Rightarrow> (error + 'r wrapped_result) \<times> 'r rstate"
where
  "lazy_resume opts subgraphName req st =
     (case getTransportExecutor_resume (factory_getter opts) (make_ctx opts subgraphName) st of
        (Inl e, st2) \<Rightarrow> (Inl e, st2)
      | (Inr executor_, st2) \<Rightarrow>
          (case executorWithHooks (wrap_options_of opts subgraphName) executor_ req st2 of
             (res, executor', st3) \<Rightarrow>
               (res, st3\<lparr>rs_cache :=
                         (rs_cache st3)(subgraphName := Some (ExecutorWithHooks executor'))\<rparr>)))"

datatype 'r call_status = Finished "error + 'r wrapped_result" | Suspended

text \<open>
  \<open>onSubgraphExecute(subgraphName, executionRequest)\<close> up to the point where the call is
  suspended (a lazy executor) or has its result (a wrapped executor).
\<close>

definition onSubgraphExecute_begin ::
  "'r runtime_options \<Rightarrow> string \<Rightarrow> nat \<Rightarrow> 'r rstate \<Rightarrow> 'r call_status \<times> 'r rstate"
where
  "onSubgraphExecute_begin opts subgraphName req st =
     (case rs_cache st subgraphName of
        None \<Rightarrow>
          (Suspended,
           lazy_begin opts subgraphName
             (st\<lparr>rs_cache := (rs_cache st)(subgraphName := Some LazyExecutor)\<rparr>))
      | Some LazyExecutor \<Rightarrow> (Suspended, lazy_begin opts subgraphName st)
      | Some (ExecutorWithHooks executor) \<Rightarrow>
          (case executorWithHooks (wrap_options_of opts subgraphName) executor req st of
             (res, executor', st') \<Rightarrow>
               (Finished res,
                st'\<lparr>rs_cache := (rs_cache st')(subgraphName := Some (ExecutorWithHooks executor'))\<rparr>)))"

text \<open>A call that nothing interleaves with.\<close>

definition onSubgraphExecute ::
  "'r runtime_options \<Rightarrow> string \<Rightarrow> nat \<Rightarrow> 'r rstate \<Rightarrow> (error + 'r wrapped_result) \<times> 'r rstate"
where
  "onSubgraphExecute opts subgraphName req st =
     (case onSubgraphExecute_begin opts subgraphName req st of
        (Finished res, st') \<Rightarrow> (res, st')
      | (Suspended, st') \<Rightarrow> lazy_resume opts subgraphName req st')"

text \<open>How often the transport factory was called for a subgraph.\<close>

definition factory_calls :: "string \<Rightarrow> event list \<Rightarrow> nat" where
  "factory_calls subgraphName tr =
     length (filter (\<lambda>ev. case ev of FactoryCalled k n \<Rightarrow> n = subgraphName | _ \<Rightarrow> False) tr)"

section \<open>Several calls, failed initialisation, subgraph names\<close>

text \<open>
  Calls made in the same tick: every call runs up to its suspension before any of them is
  resumed. \<open>begin_all\<close> starts the calls for the requests in order, \<open>resume_all\<close> resumes
  suspended calls in the order given.
\<close>

fun begin_all ::
  "'r runtime_options \<Rightarrow> string \<Rightarrow> nat list \<Rightarrow> 'r rstate \<Rightarrow> 'r call_status list \<times> 'r rstate"
where
  "begin_all opts subgraphName [] st = ([], st)"
| "begin_all opts subgraphName (r # rs) st =
     (case onSubgraphExecute_begin opts subgraphName r st of
        (s, st') \<Rightarrow>
          (case begin_all opts subgraphName rs st' of (ss, st'') \<Rightarrow> (s # ss, st'')))"

fun resume_all ::
  "'r runtime_options \<Rightarrow> string \<Rightarrow> nat list \<Rightarrow> 'r rstate
     \<Rightarrow> (error + 'r wrapped_result) list \<times> 'r rstate"
where
  "resume_all opts subgraphName [] st = ([], st)"
| "resume_all opts subgraphName (r # rs) st =
     (case lazy_resume opts subgraphName r st of
        (out, st') \<Rightarrow>
          (case resume_all opts subgraphName rs st' of (outs, st'') \<Rightarrow> (out # outs, st'')))"

definition concurrent_calls ::
  "'r runtime_options \<Rightarrow> string \<Rightarrow> nat list \<Rightarrow> nat list \<Rightarrow> 'r rstate
     \<Rightarrow> 'r call_status list \<times> (error + 'r wrapped_result) list \<times> 'r rstate"
where
  "concurrent_calls opts subgraphName reqs resumed st =
     (case begin_all opts subgraphName reqs st of
        (ss, st') \<Rightarrow>
          (case resume_all opts subgraphName resumed st' of (outs, st'') \<Rightarrow> (ss, outs, st'')))"

text \<open>
  The ways in which the first-time initialisation of a subgraph's executor fails, in the
  claim's words: the factory resolution throws, the call of the factory throws (also
  because what was resolved is not a function), or the registration of a disposable
  executor throws. \<open>init_failure\<close> is the error, if there is one.
\<close>

definition init_failure :: "'r runtime_options \<Rightarrow> string \<Rightarrow> 'r rstate \<Rightarrow> error option" where
  "init_failure opts subgraphName st =
     (case factory_getter opts (kind_of (make_ctx opts subgraphName)) of
        Inl e \<Rightarrow> Some e
      | Inr (JFun f) \<Rightarrow>
          (case f (make_ctx opts subgraphName) of
             Inl e \<Rightarrow> Some e
           | Inr ex \<Rightarrow>
               if ex_disposable ex \<and> rs_disposed st
               then Some (ReferenceError ''the stack is already disposed'')
               else None)
      | Inr g \<Rightarrow> Some (TypeError ''executor is not a function''))"

text \<open>
  \<open>compareSubgraphNames(name1, name2)\<close>. \<open>constantCase\<close> belongs to the package
  change-case and is a parameter.
\<close>

definition compareSubgraphNames :: "(string \<Rightarrow> string) \<Rightarrow> string \<Rightarrow> string \<Rightarrow> bool" where
  "compareSubgraphNames constantCase name1 name2 = (constantCase name1 = constantCase name2)"

text \<open>
  Modelled from the spec: \<open>constantCase\<close> is not under src/. The spec's glossary has it as
  the normalization that uppercases letters and collapses non-alphanumerics to a single
  separator. \<open>collapse\<close> carries whether the previous character was a separator.
\<close>

definition to_upper :: "char \<Rightarrow> char" where
  "to_upper c =
     (case map_of (zip ''abcdefghijklmnopqrstuvwxyz'' ''ABCDEFGHIJKLMNOPQRSTUVWXYZ'') c of
        None \<Rightarrow> c
      | Some u \<Rightarrow> u)"

definition is_alnum :: "char \<Rightarrow> bool" where
  "is_alnum c \<longleftrightarrow>
     c \<in> set ''abcdefghijklmnopqrstuvwxyzABCDEFGHIJKLMNOPQRSTUVWXYZ0123456789''"

fun collapse :: "bool \<Rightarrow> string \<Rightarrow> string" where
  "collapse sep [] = []"
| "collapse sep (c # cs) =
     (if is_alnum c then to_upper c # collapse False cs
      else if sep then collapse True cs
      else CHR ''_'' # collapse True cs)"

definition constantCase_spec :: "string \<Rightarrow> string" where
  "constantCase_spec s = collapse False s"


section \<open>Schema comparison (\<open>compareSchemas\<close>)\<close>

text \<open>
  An argument of \<open>compareSchemas\<close> is an SDL string, a document node or a schema. The
  printers \<open>print\<close> (of documents) and \<open>printSchemaWithDirectives\<close> (of schemas) belong to
  other packages and are parameters, as are the types of documents and schemas.
\<close>

datatype ('d, 's) schema_input = SDLString string | DocumentNode 'd | SchemaObject 's

definition compareSchemas ::
  "('d \<Rightarrow> string) \<Rightarrow> ('s \<Rightarrow> string) \<Rightarrow> ('d, 's) schema_input \<Rightarrow> ('d, 's) schema_input \<Rightarrow> bool"
where
  "compareSchemas print_document printSchemaWithDirectives a b =
     (let aStr = (case a of
                    SDLString s \<Rightarrow> s
                  | DocumentNode d \<Rightarrow> print_document d
                  | SchemaObject g \<Rightarrow> printSchemaWithDirectives g);
          bStr = (case b of
                    SDLString s \<Rightarrow> s
                  | DocumentNode d \<Rightarrow> print_document d
                  | SchemaObject g \<Rightarrow> printSchemaWithDirectives g)
      in aStr = bStr)"

text \<open>
  The canonical printed form in the spec's words: every input is compared by its printed
  form, so an SDL string is parsed and printed.
\<close>

definition spec_canonical_form ::
  "(string \<Rightarrow> 'd) \<Rightarrow> ('d \<Rightarrow> string) \<Rightarrow> ('s \<Rightarrow> string) \<Rightarrow> ('d, 's) schema_input \<Rightarrow> string"
where
  "spec_canonical_form parse_document print_document printSchemaWithDirectives x =
     (case x of
        SDLString s \<Rightarrow> print_document (parse_document s)
      | DocumentNode d \<Rightarrow> print_document d
      | SchemaObject g \<Rightarrow> printSchemaWithDirectives g)"


section \<open>The stitching merger (\<open>StitchingMerger\<close>)\<close>

text \<open>
  A schema, as far as the merger looks at it: the names of the fields of its query type
  (if it has one), whether its extensions carry \<open>link\<close> directive metadata, its printed
  SDL (\<open>printSchemaWithDirectives\<close>) and the resolvers attached to it.
\<close>

record schema =
  sc_queryFields :: "string list option"
  sc_link :: bool
  sc_sdl :: string
  sc_resolvers :: "string list"

definition isFederatedSchema :: "schema \<Rightarrow> bool" where
  "isFederatedSchema s =
     (case sc_queryFields s of Some queryFields \<Rightarrow> ''_service'' \<in> set queryFields | None \<Rightarrow> False)"

text \<open>
  The result of the SDL query: its \<open>errors\<close>, if the member is there, and what
  \<open>data._service.sdl\<close> finds.
\<close>

datatype service_data = NoData | NoService | ServiceSdl string

record sdl_query_result =
  qr_errors :: "string list option"
  qr_data :: service_data

text \<open>
  The errors of a result, none when the member is absent: \<open>sdlQueryResult.errors?.length\<close>
  is truthy exactly when this list is not empty.
\<close>

definition errors_of :: "sdl_query_result \<Rightarrow> string list" where
  "errors_of r = (case qr_errors r of None \<Rightarrow> [] | Some es \<Rightarrow> es)"

definition APOLLO_GET_SERVICE_DEFINITION_QUERY :: string where
  "APOLLO_GET_SERVICE_DEFINITION_QUERY =
     ''query __ApolloGetServiceDefinition__ { _service { sdl } }''"

record raw_source =
  src_name :: string
  src_schema :: schema
  src_executor :: "string \<Rightarrow> error + sdl_query_result"
  src_batch :: "bool option"
  src_merge :: "string option"

text \<open>
  The store (\<open>this.store.proxy(key, ...).getWithSet(f)\<close>) is not under src/ and is taken
  as a parameter. What its proxy of a key does is part of the state: it runs the function
  it is given (it holds nothing for the key, or it validates what it holds against a new
  value), or it returns the schema it holds and does not run the function. When the
  function it runs fails, \<open>getWithSet\<close> fails with that failure; what the store does with
  the schema the function returns is the member \<open>me_keep\<close> of the environment.
\<close>

datatype proxy = Runs | Holds schema

text \<open>
  The functions of other packages the merger calls: the translation of federation SDL,
  \<open>buildSchema\<close>, the merge configuration of the stitching directives transformer,
  \<open>stitchSchemas\<close>, and what the store does with the schema the function returns
  (validation, writing): the schema \<open>getWithSet\<close> returns or its failure, and the proxies
  afterwards.
\<close>

record merger_env =
  me_federationToStitchingSDL :: "string \<Rightarrow> error + string"
  me_buildSchema :: "string \<Rightarrow> error + schema"
  me_mergeOf :: "raw_source \<Rightarrow> string"
  me_stitchSchemas :: "raw_source list \<Rightarrow> error + schema"
  me_keep :: "string \<Rightarrow> schema \<Rightarrow> (string \<Rightarrow> proxy) \<Rightarrow> (error + schema) \<times> (string \<Rightarrow> proxy)"

text \<open>
  What the merger did, in order: the SDL query of a subgraph answered with a result (the
  event holds the result's errors), the SDL query of a subgraph thrown by the executor,
  a translation, a schema built, the call of \<open>stitchSchemas\<close>.
\<close>

datatype merge_event =
    SdlQueried string "string list"
  | SdlQueryThrew string
  | Translated string
  | Built string
  | Stitched

record mstate =
  ms_proxy :: "string \<Rightarrow> proxy"
  ms_trace :: "merge_event list"

definition fetch_failed_message :: "string \<Rightarrow> string" where
  "fetch_failed_message name = ''Failed on fetching Federated SDL for '' @ name"

text \<open>
  The function \<open>replaceFederationSDLWithStitchingSDL\<close> gives to \<open>getWithSet\<close>: it takes the
  federation SDL from the schema itself when that has \<open>link\<close> metadata and from the SDL
  query otherwise, translates it and builds the schema.
\<close>

definition fetch_stitching_schema ::
  "merger_env \<Rightarrow> string \<Rightarrow> schema \<Rightarrow> (string \<Rightarrow> error + sdl_query_result) \<Rightarrow> merge_event list
     \<Rightarrow> (error + schema) \<times> merge_event list"
where
  "fetch_stitching_schema env name oldSchema executor tr =
     (case (if sc_link oldSchema then (Inr (sc_sdl oldSchema), tr)
            else
              (case executor APOLLO_GET_SERVICE_DEFINITION_QUERY of
                 Inl e \<Rightarrow> (Inl e, tr @ [SdlQueryThrew name])
               | Inr sdlQueryResult \<Rightarrow>
                   (if errors_of sdlQueryResult \<noteq> []
                    then (Inl (AggregateError (errors_of sdlQueryResult) (fetch_failed_message name)),
                          tr @ [SdlQueried name (errors_of sdlQueryResult)])
                    else
                      (case qr_data sdlQueryResult of
                         ServiceSdl sdl \<Rightarrow> (Inr sdl, tr @ [SdlQueried name []])
                       | NoData \<Rightarrow>
                           (Inl (TypeError ''Cannot read properties of undefined, reading _service''),
                            tr @ [SdlQueried name []])
                       | NoService \<Rightarrow>
                           (Inl (TypeError ''Cannot read properties of undefined, reading sdl''),
                            tr @ [SdlQueried name []]))))) of
        (Inl e, tr1) \<Rightarrow> (Inl e, tr1)
      | (Inr federationSdl, tr1) \<Rightarrow>
          (case me_federationToStitchingSDL env federationSdl of
             Inl e \<Rightarrow> (Inl e, tr1)
           | Inr stitchingSdl \<Rightarrow>
               (case me_buildSchema env stitchingSdl of
                  Inl e \<Rightarrow> (Inl e, tr1 @ [Translated name])
                | Inr built \<Rightarrow> (Inr built, tr1 @ [Translated name, Built name]))))"

text \<open>
  \<open>replaceFederationSDLWithStitchingSDL\<close>: the resolvers of the old schema are put on the
  schema \<open>getWithSet\<close> returns, and the old extensions. A failure of the function given to
  \<open>getWithSet\<close> is the failure of \<open>getWithSet\<close> and of this function.
\<close>

definition replaceFederationSDLWithStitchingSDL ::
  "merger_env \<Rightarrow> string \<Rightarrow> schema \<Rightarrow> (string \<Rightarrow> error + sdl_query_result) \<Rightarrow> mstate
     \<Rightarrow> (error + schema) \<times> mstate"
where
  "replaceFederationSDLWithStitchingSDL env name oldSchema executor st =
     (let resolvers = sc_resolvers oldSchema;
          key = name @ ''_stitching''
      in
        case (case ms_proxy st key of
                Holds kept \<Rightarrow> (Inr kept, st)
              | Runs \<Rightarrow>
                  (case fetch_stitching_schema env name oldSchema executor (ms_trace st) of
                     (Inl e, tr) \<Rightarrow> (Inl e, st\<lparr>ms_trace := tr\<rparr>)
                   | (Inr built, tr) \<Rightarrow>
                       (case me_keep env key built (ms_proxy st) of
                          (r, proxies) \<Rightarrow> (r, st\<lparr>ms_proxy := proxies, ms_trace := tr\<rparr>)))) of
          (Inl e, st') \<Rightarrow> (Inl e, st')
        | (Inr newSchema, st') \<Rightarrow>
            (Inr (newSchema\<lparr>sc_resolvers := resolvers, sc_link := sc_link oldSchema\<rparr>), st'))"

text \<open>The callback \<open>getUnifiedSchema\<close> maps over the raw sources.\<close>

definition prepare_source :: "merger_env \<Rightarrow> raw_source \<Rightarrow> mstate \<Rightarrow> (error + raw_source) \<times> mstate" where
  "prepare_source env rawSource st =
     (let batched = (case src_batch rawSource of
                       None \<Rightarrow> rawSource\<lparr>src_batch := Some True\<rparr>
                     | Some b \<Rightarrow> rawSource)
      in
        case (if isFederatedSchema (src_schema batched) then
                (case replaceFederationSDLWithStitchingSDL env (src_name batched) (src_schema batched)
                        (src_executor batched) st of
                   (Inl e, st') \<Rightarrow> (Inl e, st')
                 | (Inr newSchema, st') \<Rightarrow> (Inr (batched\<lparr>src_schema := newSchema\<rparr>), st'))
              else (Inr batched, st)) of
          (Inl e, st') \<Rightarrow> (Inl e, st')
        | (Inr src, st') \<Rightarrow> (Inr (src\<lparr>src_merge := Some (me_mergeOf env src)\<rparr>), st'))"








text \<open>
  The executor of a subgraph answers the SDL query with a result whose errors are \<open>errs\<close>.
\<close>

definition returns_errors :: "(string \<Rightarrow> error + sdl_query_result) \<Rightarrow> string list \<Rightarrow> bool" where
  "returns_errors executor errs =
     (case executor APOLLO_GET_SERVICE_DEFINITION_QUERY of
        Inl e \<Rightarrow> False
      | Inr sdlQueryResult \<Rightarrow> errors_of sdlQueryResult = errs)"

text \<open>
  A federated source without \<open>link\<close> metadata whose executor answers the SDL query with
  the errors \<open>errs\<close>, and there are some.
\<close>

definition answers_with_errors :: "raw_source \<Rightarrow> string list \<Rightarrow> bool" where
  "answers_with_errors rawSource errs \<longleftrightarrow>
     isFederatedSchema (src_schema rawSource) \<and> \<not> sc_link (src_schema rawSource)
     \<and> returns_errors (src_executor rawSource) errs \<and> errs \<noteq> []"


section \<open>Concrete inputs\<close>

text \<open>
  Collaborators and inputs used where a statement is evaluated on a concrete input.
  \<open>no_module\<close> is an environment in which no transport package is installed.
\<close>

definition no_module :: "string \<Rightarrow> error + 'f jsval" where
  "no_module specifier = Inl (Rejected (''Cannot find package '' @ specifier))"

text \<open>
  Three executors: the upstream one, a replacement, and one that returns a stream.
\<close>

definition upstream :: "nat executor" where
  "upstream = Executor ''upstream'' False (\<lambda>h a. Inr (Single 1))"

definition fake :: "nat executor" where
  "fake = Executor ''fake'' False (\<lambda>h a. Inr (Single 2))"

definition counting :: "nat executor" where
  "counting = Executor ''counting'' False (\<lambda>h a. Inr (Stream [1, 2, 3]))"

text \<open>
  A pre-hook that calls \<open>setExecutor(fake)\<close>; a pre-hook that returns a done hook whose
  result observes the stream: \<open>onNext\<close> rewrites each item to ten times its value,
  \<open>onEnd\<close> is a spy.
\<close>

definition swap_hook :: "nat preHook" where
  "swap_hook = (''swap'', \<lambda>p. ([SetExecutor fake], None))"

definition times_ten :: "nat done_result" where
  "times_ten = DoneResult (Some (''timesTen'', \<lambda>x. [x * 10])) (Some ''spy'')"

definition observe_hook :: "nat preHook" where
  "observe_hook = (''observe'', \<lambda>p. ([], Some (''done'', \<lambda>r. ([], Some times_ten))))"

text \<open>
  Options for subgraph \<open>a\<close>, with and without a transport context that has a logger; a
  store with one request that has no info object.
\<close>

definition wrap_with :: "nat preHook list \<Rightarrow> transport_context option \<Rightarrow> nat wrap_options" where
  "wrap_with hooks tc =
     \<lparr> wo_onSubgraphExecuteHooks = hooks, wo_subgraphName = ''a'', wo_transportEntryMap = None,
       wo_getSubgraphSchema = (\<lambda>n. []), wo_transportContext = tc \<rparr>"

definition with_logger :: "transport_context option" where
  "with_logger = Some \<lparr> tc_logger = Some (Logger True) \<rparr>"

definition one_request :: pstate where
  "one_request =
     \<lparr> ps_heap = [RequestObj ''q'' None None], ps_loggerFor = (\<lambda>a. None), ps_trace = [] \<rparr>"

text \<open>
  A runtime for the subgraph \<open>my_api\<close> of kind \<open>k\<close>, with a logger and no hooks. The
  transport's factory returns an executor that answers with the request's reference.
  \<open>installed\<close> is an inline mapping that has the transport. The store of \<open>two_requests\<close>
  holds two requests; nothing is cached and the stack is empty.
\<close>

definition echo_factory :: "nat factory" where
  "echo_factory ctx = Inr (Executor (ctx_subgraphName ctx) False (\<lambda>h a. Inr (Single a)))"

definition installed :: "nat factory transports" where
  "installed = TransportsMap [(''k'', Inr (JObj [(''getSubgraphExecutor'', JFun echo_factory)]))]"

text \<open>An environment in which the package of the kind \<open>k\<close> is installed.\<close>

definition package_installed :: "string \<Rightarrow> error + nat factory jsval" where
  "package_installed specifier =
     (if specifier = ''@graphql-mesh/transport-k''
      then Inr (JObj [(''getSubgraphExecutor'', JFun echo_factory)])
      else Inl (Rejected (''Cannot find package '' @ specifier)))"

definition runtime_with ::
  "nat factory transports \<Rightarrow> (string \<Rightarrow> error + nat factory jsval) \<Rightarrow> nat runtime_options"
where
  "runtime_with transports import_module =
     \<lparr> go_onSubgraphExecuteHooks = [],
       go_transports = transports,
       go_transportContext = with_logger,
       go_transportEntryMap = Some (map_of [(''my_api'', \<lparr>te_kind = ''k'', te_location = None\<rparr>)]),
       go_getSubgraphSchema = (\<lambda>n. []),
       go_import = import_module \<rparr>"

definition two_requests :: "nat rstate" where
  "two_requests =
     \<lparr> ps_heap = [RequestObj ''q1'' None None, RequestObj ''q2'' None None],
       ps_loggerFor = (\<lambda>a. None), ps_trace = [],
       rs_cache = (\<lambda>n. None), rs_stack = [], rs_disposed = False \<rparr>"

text \<open>
  A stand-in for \<open>parse\<close> on SDL strings whose printed form does not depend on blanks: it
  drops them.
\<close>

definition drop_blanks :: "string \<Rightarrow> string" where
  "drop_blanks s = filter (\<lambda>c. c \<noteq> CHR '' '') s"








section \<open>Properties of the transport executor factory registry\<close>

lemma not_found_message_names_kind: "sublist kind (not_found_message kind)"
  unfolding not_found_message_def by (metis sublist_appendI)

lemma not_found_message_names_module: "sublist (transport_module kind) (not_found_message kind)"
proof -
  have "not_found_message kind =
      (''No transport found for '' @ kind @ ''. Please make sure you have installed '')
        @ transport_module kind @ ('' or defined the transport config in '' @ dq @ ''mesh.config.ts'' @ dq)"
    by (simp add: not_found_message_def)
  then show ?thesis by (metis sublist_appendI)
qed

text \<open>
  With a logger that has \<open>child\<close>, a kind that neither the inline function nor the inline
  mapping resolves (the value found is absent or falsy) and whose conventional module
  cannot be imported raises the error whose message names the kind and the module.
\<close>

lemma getTransport_not_found:
  assumes "inline_transport transports kind = Inr t" and "\<not> truthy t"
    and "import_module (transport_module kind) = Inl err" and "has_child l"
  shows "\<exists>msg. getTransport transports (Some l) import_module kind = Inl (Error msg)
           \<and> sublist kind msg \<and> sublist (transport_module kind) msg"
proof -
  have "getTransport transports (Some l) import_module kind = Inl (Error (not_found_message kind))"
    using assms by (simp add: getTransport_def child_opt_def)
  then show ?thesis
    using not_found_message_names_kind not_found_message_names_module by blast
qed

text \<open>
  With a logger that has no \<open>child\<close> method the failed import ends in
  \<open>childLogger.error(err)\<close> on an absent child logger.
\<close>

lemma getTransport_without_child_logger:
  assumes "inline_transport transports kind = Inr t" and "\<not> truthy t"
    and "import_module (transport_module kind) = Inl err" and "\<not> has_child l"
  shows "getTransport transports (Some l) import_module kind
           = Inl (TypeError ''Cannot read properties of undefined, reading error'')"
  using assms by (simp add: getTransport_def child_opt_def)

text \<open>
  C7 (the code departs from the claim). The claim: a kind that no resolution step resolves
  raises an error whose message names the kind and \<open>@graphql-mesh/transport-\<close> + kind. The
  code reads \<open>logger.child\<close> before it tries the import, and \<open>logger\<close> is
  \<open>transportContext?.logger\<close>: when \<open>getOnSubgraphExecute\<close> is given no transport context
  and no transports, resolving the kind \<open>ghost\<close> raises a \<open>TypeError\<close> whose message names
  neither the kind nor the module.
\<close>

theorem getTransport_without_logger:
  "getTransport NoTransports (context_logger None) no_module ''ghost''
     = Inl (TypeError ''Cannot read properties of undefined, reading child'')
   \<and> \<not> sublist ''ghost'' ''Cannot read properties of undefined, reading child''
   \<and> \<not> sublist (transport_module ''ghost'') ''Cannot read properties of undefined, reading child''"
  by (simp add: getTransport_def context_logger_def transport_module_def sublist_Cons_right
      prefix_Cons)

text \<open>
  C8 (amended). When the module comes from dynamic discovery (the inline sources give
  nothing truthy, a logger is there, the import succeeds) and the member the code selects
  (\<open>default.getSubgraphExecutor\<close> if the module has a \<open>default\<close> member, else the top-level
  \<open>getSubgraphExecutor\<close>) is not a function, \<open>getTransport\<close> raises the error for a missing
  export (a falsy member) or for a non-callable export. A module that the inline function
  or mapping supplies is not validated: the selected member is returned as it is.
\<close>

theorem getTransport_misshaped:
  assumes "inline_transport transports kind = Inr t"
  shows "(\<not> truthy t \<and> import_module (transport_module kind) = Inr m
            \<and> select_getSubgraphExecutor m = Inr g \<and> \<not> is_function g
          \<longrightarrow> getTransport transports (Some l) import_module kind
                = Inl (Error (if truthy g then not_a_function_message kind
                              else not_exported_message kind)))
       \<and> (truthy t
          \<longrightarrow> getTransport transports logger import_module kind = select_getSubgraphExecutor t)"
  using assms by (simp add: getTransport_def)

text \<open>
  The amended C8 at concrete inputs: a discovered module whose \<open>default\<close> member exports a
  string under the name, a discovered module without the member, and an inline function
  whose module exports the factory.
\<close>

theorem getTransport_misshaped_witness:
  "getTransport (NoTransports :: unit transports) (Some (Logger True))
       (\<lambda>s. Inr (JObj [(''default'', JObj [(''getSubgraphExecutor'', JStr ''x'')])])) ''http''
     = Inl (Error (not_a_function_message ''http''))
   \<and> getTransport (NoTransports :: unit transports) (Some (Logger True))
       (\<lambda>s. Inr (JObj [(''version'', JNum 1)])) ''http''
     = Inl (Error (not_exported_message ''http''))
   \<and> getTransport (TransportsFn (\<lambda>k. Inr (JObj [(''getSubgraphExecutor'', JFun ())]))) None no_module ''http''
     = Inr (JFun ())"
proof -
  have a: "inline_transport (NoTransports :: unit transports) ''http'' = Inr JUndefined" by simp
  have b: "inline_transport (TransportsFn (\<lambda>k. Inr (JObj [(''getSubgraphExecutor'', JFun ())]))) ''http''
             = Inr (JObj [(''getSubgraphExecutor'', JFun ())])" by simp
  show ?thesis
    using getTransport_misshaped [OF a, where import_module = "\<lambda>s. Inr (JObj [(''default'', JObj [(''getSubgraphExecutor'', JStr ''x'')])])"
            and m = "JObj [(''default'', JObj [(''getSubgraphExecutor'', JStr ''x'')])]" and g = "JStr ''x''" and l = "Logger True"]
      getTransport_misshaped [OF a, where import_module = "\<lambda>s. Inr (JObj [(''version'', JNum 1)])"
            and m = "JObj [(''version'', JNum 1)]" and g = JUndefined and l = "Logger True"]
      getTransport_misshaped [OF b, where import_module = no_module and logger = None]
    by (simp add: select_getSubgraphExecutor_def)
qed

text \<open>
  C8 as stated fails for the inline sources: an inline mapping whose module has no
  \<open>getSubgraphExecutor\<close> makes \<open>getTransport\<close> return \<open>undefined\<close>, and one whose module has
  the number 5 under that name makes it return 5; neither raises.
\<close>

theorem getTransport_inline_not_validated:
  "getTransport (TransportsMap [(''http'', Inr (JObj [(''name'', JStr ''http'')]))] :: unit transports)
       (Some (Logger True)) no_module ''http'' = Inr JUndefined
   \<and> getTransport (TransportsMap [(''http'', Inr (JObj [(''getSubgraphExecutor'', JNum 5)]))])
       (Some (Logger True)) no_module ''http'' = Inr (JNum 5)"
  by (simp add: getTransport_def select_getSubgraphExecutor_def)


section \<open>Properties of the hook pipeline\<close>

subsection \<open>The request is attached to its info object\<close>

lemma executorWithHooks_heap:
  assumes "attach (ps_heap st) a = Inr h"
  shows "ps_heap (snd (snd (executorWithHooks opts executor a st))) = h"
  using assms
  by (simp add: executorWithHooks_def Let_def split: prod.splits sum.splits option.splits)

lemma attach_without_info:
  assumes "a < length h" and "h ! a = RequestObj n rid None"
  shows "attach h a = Inr ((h[a := RequestObj n rid (Some (length h))]) @ [InfoObj None (Some a)])"
  using assms by (simp add: attach_def)

lemma attach_with_info:
  assumes "a < length h" and "h ! a = RequestObj n rid (Some i)"
    and "i < length h" and "h ! i = InfoObj f r"
  shows "attach h a = Inr (h[i := InfoObj f (Some a)])"
  using assms by (simp add: attach_def)

text \<open>
  C10. Whatever the hooks and the executor are (also with no pre-hook), after a run of
  \<open>executorWithHooks\<close> on the request at \<open>a\<close> the request's \<open>info\<close> refers to an info
  object whose \<open>executionRequest\<close> refers to \<open>a\<close>. A request without info gets a new info
  object (the first free reference); an existing info object is kept and updated. The
  request is a request object of the store and its info reference, if any, is one to an
  info object.
\<close>

theorem executorWithHooks_attaches_request:
  assumes "a < length (ps_heap st)"
    and "ps_heap st ! a = RequestObj n rid io"
    and "\<forall>i. io = Some i \<longrightarrow> i < length (ps_heap st) \<and> (\<exists>f r. ps_heap st ! i = InfoObj f r)"
  shows "\<exists>i f. i < length (ps_heap (snd (snd (executorWithHooks opts executor a st))))
           \<and> ps_heap (snd (snd (executorWithHooks opts executor a st))) ! a = RequestObj n rid (Some i)
           \<and> ps_heap (snd (snd (executorWithHooks opts executor a st))) ! i = InfoObj f (Some a)
           \<and> (io = None \<longrightarrow> i = length (ps_heap st))
           \<and> (\<forall>j. io = Some j \<longrightarrow> i = j)"
proof (cases io)
  case None
  let ?h = "(ps_heap st)[a := RequestObj n rid (Some (length (ps_heap st)))] @ [InfoObj None (Some a)]"
  have "attach (ps_heap st) a = Inr ?h"
    using assms None by (simp add: attach_without_info)
  then have h: "ps_heap (snd (snd (executorWithHooks opts executor a st))) = ?h"
    by (rule executorWithHooks_heap)
  have "?h ! a = RequestObj n rid (Some (length (ps_heap st)))"
    using assms(1) by (simp add: nth_append)
  moreover have "?h ! length (ps_heap st) = InfoObj None (Some a)"
    by (simp add: nth_append)
  ultimately show ?thesis
    using None h by auto
next
  case (Some j)
  then obtain f r where j: "j < length (ps_heap st)" "ps_heap st ! j = InfoObj f r"
    using assms(3) by blast
  let ?h = "(ps_heap st)[j := InfoObj f (Some a)]"
  have "attach (ps_heap st) a = Inr ?h"
    using assms Some j by (simp add: attach_with_info)
  then have h: "ps_heap (snd (snd (executorWithHooks opts executor a st))) = ?h"
    by (rule executorWithHooks_heap)
  have "j \<noteq> a" using assms(2) j(2) by auto
  then have "?h ! a = RequestObj n rid (Some j)"
    using assms(2) Some by simp
  moreover have "?h ! j = InfoObj f (Some a)"
    using j(1) by simp
  ultimately show ?thesis
    using Some h j(1) by auto
qed

text \<open>
  C10 on a request without info, with no pre-hook and no transport context: the new info
  object is at reference 1 and refers back to the request at 0.
\<close>

theorem executorWithHooks_attaches_request_witness:
  "0 < length (ps_heap one_request)
   \<and> ps_heap one_request ! 0 = RequestObj ''q'' None None
   \<and> ps_heap (snd (snd (executorWithHooks (wrap_with [] None) upstream 0 one_request)))
       = [RequestObj ''q'' None (Some 1), InfoObj None (Some 0)]"
proof -
  have a: "0 < length (ps_heap one_request)" by (simp add: one_request_def)
  have b: "ps_heap one_request ! 0 = RequestObj ''q'' None None" by (simp add: one_request_def)
  have c: "\<forall>i. (None :: nat option) = Some i
             \<longrightarrow> i < length (ps_heap one_request) \<and> (\<exists>f r. ps_heap one_request ! i = InfoObj f r)"
    by simp
  obtain i f where
    "i < length (ps_heap (snd (snd (executorWithHooks (wrap_with [] None) upstream 0 one_request))))"
    "ps_heap (snd (snd (executorWithHooks (wrap_with [] None) upstream 0 one_request))) ! i
       = InfoObj f (Some 0)"
    using executorWithHooks_attaches_request [OF a b c, of "wrap_with [] None" upstream] by blast
  moreover have "ps_heap (snd (snd (executorWithHooks (wrap_with [] None) upstream 0 one_request)))
       = [RequestObj ''q'' None (Some 1), InfoObj None (Some 0)]"
    by (simp add: executorWithHooks_def wrap_with_def one_request_def attach_def
        execReqLogger_of_def call_executor_def upstream_def Let_def)
  ultimately show ?thesis using a b by simp
qed

subsection \<open>Setters and the request logger\<close>

lemma assign_all_logged: "assign_all (Some l) vs cur = Inr (last (cur # vs))"
  by (induction vs arbitrary: cur) (simp_all add: debug_log_def)

lemma apply_setter_calls_logged:
  "apply_setter_calls (Some l) calls pv = (None, foldl assign_variable pv calls)"
  by (induction calls arbitrary: pv) (simp_all add: debug_log_def)

text \<open>Without a request logger the first call of a setter throws before it assigns.\<close>

lemma assign_all_no_logger:
  "assign_all None (v # vs) cur
     = Inl (TypeError ''Cannot read properties of undefined, reading debug'')"
  by (simp add: debug_log_def)

lemma apply_setter_calls_no_logger:
  "apply_setter_calls None (c # cs) pv
     = (Some (TypeError ''Cannot read properties of undefined, reading debug''), pv)"
  by (simp add: debug_log_def)

lemma foldl_assign_keeps_executor:
  assumes "list_all (\<lambda>c. case c of SetExecutor e' \<Rightarrow> False | SetExecutionRequest r \<Rightarrow> True) cs"
  shows "pv_executor (foldl assign_variable pv cs) = pv_executor pv"
  using assms by (induction cs arbitrary: pv) (auto simp: assign_variable_def split: setter_call.splits)

lemma foldl_assign_keeps_request:
  assumes "list_all (\<lambda>c. case c of SetExecutor e' \<Rightarrow> True | SetExecutionRequest r \<Rightarrow> False) cs"
  shows "pv_executionRequest (foldl assign_variable pv cs) = pv_executionRequest pv"
  using assms by (induction cs arbitrary: pv) (auto simp: assign_variable_def split: setter_call.splits)

subsection \<open>Replacements made by a pre-hook\<close>

lemma run_pre_hooks_step:
  assumes "snd h (hook_payload opts rid (Some l) pv) = (calls, ret)"
  shows "run_pre_hooks opts rid (Some l) (h # hs) pv
     = run_pre_hooks opts rid (Some l) hs
         (case ret of
            None \<Rightarrow> foldl assign_variable (pv\<lparr>pv_trace := pv_trace pv @ [PreHookCalled (fst h)]\<rparr>) calls
          | Some d \<Rightarrow>
              (foldl assign_variable (pv\<lparr>pv_trace := pv_trace pv @ [PreHookCalled (fst h)]\<rparr>) calls)
                \<lparr>pv_doneHooks :=
                   pv_doneHooks (foldl assign_variable
                     (pv\<lparr>pv_trace := pv_trace pv @ [PreHookCalled (fst h)]\<rparr>) calls) @ [d]\<rparr>)"
  using assms by (simp add: apply_setter_calls_logged)

text \<open>
  With a request logger: the executor a pre-hook sets last is the value of the variable
  when the next hook's payload is built, and likewise the request.
\<close>

lemma setExecutor_visible_to_next_hook:
  assumes "snd h (hook_payload opts rid (Some l) pv) = (cs1 @ SetExecutor e # cs2, ret)"
    and "list_all (\<lambda>c. case c of SetExecutor e' \<Rightarrow> False | SetExecutionRequest r \<Rightarrow> True) cs2"
  shows "\<exists>pv'. run_pre_hooks opts rid (Some l) (h # hs) pv = run_pre_hooks opts rid (Some l) hs pv'
           \<and> pv_executor pv' = e
           \<and> pl_executor (hook_payload opts rid (Some l) pv') = e"
  by (intro exI conjI, rule run_pre_hooks_step [OF assms(1)])
     (simp_all add: foldl_assign_keeps_executor [OF assms(2)] hook_payload_def assign_variable_def
        split: option.splits)

lemma setExecutionRequest_visible_to_next_hook:
  assumes "snd h (hook_payload opts rid (Some l) pv) = (cs1 @ SetExecutionRequest r # cs2, ret)"
    and "list_all (\<lambda>c. case c of SetExecutor e' \<Rightarrow> True | SetExecutionRequest r' \<Rightarrow> False) cs2"
  shows "\<exists>pv'. run_pre_hooks opts rid (Some l) (h # hs) pv = run_pre_hooks opts rid (Some l) hs pv'
           \<and> pv_executionRequest pv' = r
           \<and> pl_executionRequest (hook_payload opts rid (Some l) pv') = r"
  by (intro exI conjI, rule run_pre_hooks_step [OF assms(1)])
     (simp_all add: foldl_assign_keeps_request [OF assms(2)] hook_payload_def assign_variable_def
        split: option.splits)

text \<open>
  The executor that is called after the pre-hooks is the final value of the variable, on
  the final value of the request; when no done hook was returned its result is the
  caller's.
\<close>

lemma executorWithHooks_uses_final_variables:
  assumes "attach (ps_heap st) a = Inr h"
    and "h ! a = RequestObj n rid io"
    and "wo_onSubgraphExecuteHooks opts \<noteq> []"
    and "run_pre_hooks opts rid (execReqLogger_of (wo_transportContext opts))
           (wo_onSubgraphExecuteHooks opts)
           \<lparr>pv_executionRequest = a, pv_executor = executor, pv_doneHooks = [],
            pv_trace = ps_trace st\<rparr> = (None, pv)"
    and "pv_doneHooks pv = []"
  shows "fst (executorWithHooks opts executor a st)
           = map_sum id Unchanged (ex_run (pv_executor pv) h (pv_executionRequest pv))
       \<and> ps_trace (snd (snd (executorWithHooks opts executor a st)))
           = pv_trace pv @ [ExecutorCalled (ex_name (pv_executor pv)) (pv_executionRequest pv)]
       \<and> fst (snd (executorWithHooks opts executor a st)) = pv_executor pv"
  using assms
  by (simp add: executorWithHooks_def Let_def call_executor_def split: option.splits)

text \<open>
  With a logger in the transport context, the hook that calls \<open>setExecutor(fake)\<close> makes
  the caller receive the result of \<open>fake\<close>; the upstream executor is not called.
\<close>

lemma setExecutor_with_logger:
  "fst (executorWithHooks (wrap_with [swap_hook] with_logger) upstream 0 one_request)
     = Inr (Unchanged (Single 2))
   \<and> ps_trace (snd (snd (executorWithHooks (wrap_with [swap_hook] with_logger) upstream 0 one_request)))
     = [PreHookCalled ''swap'', ExecutorCalled ''fake'' 0]"
  by (simp add: executorWithHooks_def wrap_with_def one_request_def attach_def
      execReqLogger_of_def call_executor_def upstream_def fake_def swap_hook_def with_logger_def
      child_opt_def hook_payload_def debug_log_def assign_variable_def Let_def)

text \<open>
  C3 (the code departs from the claim). The claim: a pre-hook's \<open>setExecutor(fake)\<close> makes
  the caller receive the result of \<open>fake\<close>. The setters call \<open>execReqLogger.debug\<close> before
  they assign, and \<open>execReqLogger\<close> is \<open>transportContext?.logger?.child?.(subgraphName)\<close>:
  with no transport context, the hook's call of \<open>setExecutor(fake)\<close> throws a \<open>TypeError\<close>,
  no replacement is made, no executor is called, and the caller receives the error where
  \<open>fake\<close> would have returned a result.
\<close>

theorem setExecutor_without_logger:
  "fst (executorWithHooks (wrap_with [swap_hook] None) upstream 0 one_request)
     = Inl (TypeError ''Cannot read properties of undefined, reading debug'')
   \<and> fst (snd (executorWithHooks (wrap_with [swap_hook] None) upstream 0 one_request)) = upstream
   \<and> ps_trace (snd (snd (executorWithHooks (wrap_with [swap_hook] None) upstream 0 one_request)))
     = [PreHookCalled ''swap'']
   \<and> ex_run fake [RequestObj ''q'' None (Some 1), InfoObj None (Some 0)] 0 = Inr (Single 2)"
  by (simp add: executorWithHooks_def wrap_with_def one_request_def attach_def
      execReqLogger_of_def call_executor_def upstream_def fake_def swap_hook_def
      hook_payload_def debug_log_def Let_def)

subsection \<open>Streams\<close>

lemma run_onNext_logged:
  "run_onNext (Some l) nexts x tr
     = (Inr (foldl (\<lambda>y n. last (y # snd n y)) x nexts),
        tr @ map (\<lambda>n. OnNextCalled (fst n)) nexts)"
  by (induction nexts arbitrary: x tr) (simp_all add: assign_all_logged)

text \<open>
  With a request logger, a consumer of the mapped stream receives each item of the
  source after every \<open>onNext\<close> hook has seen it in order, each hook getting the item as
  the hooks before it left it; the \<open>onEnd\<close> hooks run once, in order, after the last
  item.
\<close>

lemma consume_mapped_logged:
  "consume_mapped (Some l) nexts ends xs tr
     = (None,
        map (\<lambda>x. foldl (\<lambda>y n. last (y # snd n y)) x nexts) xs,
        tr @ concat (map (\<lambda>x. map (\<lambda>n. OnNextCalled (fst n)) nexts @ [Yielded]) xs)
           @ map OnEndCalled ends)"
  by (induction xs arbitrary: tr) (simp_all add: run_onNext_logged run_onEnd_def)

text \<open>No observer: the result is returned as it is. An observer: the stream is mapped.\<close>

lemma finish_result_unchanged:
  "collect_onNext rs = [] \<Longrightarrow> collect_onEnd rs = [] \<Longrightarrow> finish_result lg cur rs = Unchanged cur"
  by (simp add: finish_result_def split: exec_result.splits)

lemma finish_result_mapped:
  "collect_onNext rs \<noteq> [] \<or> collect_onEnd rs \<noteq> []
     \<Longrightarrow> finish_result lg (Stream xs) rs = Mapped xs (collect_onNext rs) (collect_onEnd rs) lg"
  by (auto simp: finish_result_def)

text \<open>
  With a logger in the transport context: the executor yields 1, 2, 3, the consumer
  receives 10, 20, 30, and the spy is called once, after the third item.
\<close>

lemma stream_observed_with_logger:
  "fst (executorWithHooks (wrap_with [observe_hook] with_logger) counting 0 one_request)
     = Inr (Mapped [1, 2, 3] [(''timesTen'', \<lambda>x. [x * 10])] [''spy''] (Some (Logger True)))
   \<and> consume (Mapped [1, 2, 3 :: nat] [(''timesTen'', \<lambda>x. [x * 10])] [''spy''] (Some (Logger True))) []
     = (None, [10, 20, 30],
        [OnNextCalled ''timesTen'', Yielded, OnNextCalled ''timesTen'', Yielded,
         OnNextCalled ''timesTen'', Yielded, OnEndCalled ''spy''])"
  by (simp add: executorWithHooks_def wrap_with_def one_request_def attach_def
      execReqLogger_of_def call_executor_def counting_def observe_hook_def times_ten_def
      with_logger_def child_opt_def hook_payload_def debug_log_def finish_result_def
      run_onEnd_def Let_def)

text \<open>
  C4 (the code departs from the claim). The claim: each yielded item passes through the
  \<open>onNext\<close> observers, each of which may rewrite it with \<open>setResult\<close>, before the consumer
  gets it. \<open>setResult\<close> calls \<open>execReqLogger.debug\<close> before it assigns: with no transport
  context, the observer that rewrites the item makes the first read of the stream throw a
  \<open>TypeError\<close>, and the consumer gets no item of the source's three. This is the defect
  of C3.
\<close>

theorem stream_observed_without_logger:
  "fst (executorWithHooks (wrap_with [observe_hook] None) counting 0 one_request)
     = Inr (Mapped [1, 2, 3] [(''timesTen'', \<lambda>x. [x * 10])] [''spy''] None)
   \<and> consume (Mapped [1, 2, 3 :: nat] [(''timesTen'', \<lambda>x. [x * 10])] [''spy''] None) []
     = (Some (TypeError ''Cannot read properties of undefined, reading debug''), [],
        [OnNextCalled ''timesTen''])"
  by (simp add: executorWithHooks_def wrap_with_def one_request_def attach_def
      execReqLogger_of_def call_executor_def counting_def observe_hook_def times_ten_def
      hook_payload_def debug_log_def finish_result_def run_onEnd_def Let_def)


section \<open>Properties of the lazy subgraph executor cache\<close>

lemma factory_calls_append [simp]:
  "factory_calls n (xs @ ys) = factory_calls n xs + factory_calls n ys"
  by (simp add: factory_calls_def)

lemma factory_calls_Nil [simp]: "factory_calls n [] = 0"
  by (simp add: factory_calls_def)

lemma factory_calls_Cons [simp]:
  "factory_calls n (ev # tr)
     = (case ev of FactoryCalled k m \<Rightarrow> if m = n then 1 else 0 | _ \<Rightarrow> 0) + factory_calls n tr"
  by (simp add: factory_calls_def split: event.splits)

lemma apply_setter_calls_trace:
  "pv_trace (snd (apply_setter_calls lg cs pv)) = pv_trace pv"
  by (induction cs arbitrary: pv)
     (auto simp: assign_variable_def split: option.splits setter_call.splits)

lemma run_pre_hooks_factory_calls:
  "factory_calls n (pv_trace (snd (run_pre_hooks opts rid lg hs pv))) = factory_calls n (pv_trace pv)"
proof (induction hs arbitrary: pv)
  case Nil
  then show ?case by simp
next
  case (Cons h hs)
  obtain calls ret where b: "snd h (hook_payload opts rid lg pv) = (calls, ret)"
    by (cases "snd h (hook_payload opts rid lg pv)")
  obtain err pv' where a:
    "apply_setter_calls lg calls (pv\<lparr>pv_trace := pv_trace pv @ [PreHookCalled (fst h)]\<rparr>) = (err, pv')"
    by (cases "apply_setter_calls lg calls (pv\<lparr>pv_trace := pv_trace pv @ [PreHookCalled (fst h)]\<rparr>)")
  have t: "pv_trace pv' = pv_trace pv @ [PreHookCalled (fst h)]"
    using apply_setter_calls_trace [of lg calls "pv\<lparr>pv_trace := pv_trace pv @ [PreHookCalled (fst h)]\<rparr>"] a
    by simp
  show ?case
    using a b t Cons.IH by (cases err; cases ret) simp_all
qed

lemma run_done_hooks_factory_calls:
  "factory_calls n (snd (run_done_hooks lg ds cur rs tr)) = factory_calls n tr"
  by (induction ds arbitrary: cur rs tr) (auto split: prod.splits sum.splits)

text \<open>The pipeline calls no factory and leaves the cache and the stack alone.\<close>

lemma executorWithHooks_factory_calls:
  "factory_calls n (ps_trace (snd (snd (executorWithHooks opts ex a st)))) = factory_calls n (ps_trace st)"
proof (cases "attach (ps_heap st) a")
  case (Inl e)
  then show ?thesis by (simp add: executorWithHooks_def)
next
  case (Inr h)
  show ?thesis
  proof (cases "wo_onSubgraphExecuteHooks opts = []")
    case True
    then show ?thesis using Inr by (simp add: executorWithHooks_def Let_def call_executor_def)
  next
    case False
    let ?rid = "case h ! a of RequestObj n rid io \<Rightarrow> rid | InfoObj f r \<Rightarrow> None"
    let ?lg = "execReqLogger_of (wo_transportContext opts)"
    let ?pv0 = "\<lparr>pv_executionRequest = a, pv_executor = ex, pv_doneHooks = [], pv_trace = ps_trace st\<rparr>"
    obtain err pv where r: "run_pre_hooks opts ?rid ?lg (wo_onSubgraphExecuteHooks opts) ?pv0 = (err, pv)"
      by (cases "run_pre_hooks opts ?rid ?lg (wo_onSubgraphExecuteHooks opts) ?pv0")
    have t: "factory_calls n (pv_trace pv) = factory_calls n (ps_trace st)"
      using run_pre_hooks_factory_calls [of n opts ?rid ?lg "wo_onSubgraphExecuteHooks opts" ?pv0] r
      by simp
    show ?thesis
    proof (cases err)
      case (Some e)
      then show ?thesis using Inr False r t by (simp add: executorWithHooks_def Let_def)
    next
      case None
      show ?thesis
      proof (cases "ex_run (pv_executor pv) h (pv_executionRequest pv)")
        case (Inl e)
        then show ?thesis
          using Inr False r t None by (simp add: executorWithHooks_def Let_def call_executor_def)
      next
        case res: (Inr cur)
        obtain out tr' where d:
          "run_done_hooks ?lg (pv_doneHooks pv) cur []
             (pv_trace pv @ [ExecutorCalled (ex_name (pv_executor pv)) (pv_executionRequest pv)]) = (out, tr')"
          by (cases "run_done_hooks ?lg (pv_doneHooks pv) cur []
             (pv_trace pv @ [ExecutorCalled (ex_name (pv_executor pv)) (pv_executionRequest pv)])")
        have "factory_calls n tr' = factory_calls n (ps_trace st)"
          using run_done_hooks_factory_calls [of n ?lg "pv_doneHooks pv" cur "[]"
              "pv_trace pv @ [ExecutorCalled (ex_name (pv_executor pv)) (pv_executionRequest pv)]"] d t
          by simp
        then show ?thesis
          using Inr False r t None res d
          by (cases out) (simp_all add: executorWithHooks_def Let_def call_executor_def split: prod.splits)
      qed
    qed
  qed
qed

lemma executorWithHooks_frame:
  "rs_cache (snd (snd (executorWithHooks opts ex a st))) = rs_cache st"
  "rs_stack (snd (snd (executorWithHooks opts ex a st))) = rs_stack st"
  "rs_disposed (snd (snd (executorWithHooks opts ex a st))) = rs_disposed st"
  by (simp_all add: executorWithHooks_def Let_def split: prod.splits sum.splits option.splits)

lemma getTransportExecutor_resume_frame:
  "rs_cache (snd (getTransportExecutor_resume getter ctx st)) = rs_cache st"
  "rs_disposed (snd (getTransportExecutor_resume getter ctx st)) = rs_disposed st"
  by (simp_all add: getTransportExecutor_resume_def Let_def stack_use_def
      split: sum.splits jsval.splits)

lemma getTransportExecutor_resume_factory_calls:
  assumes "getter (kind_of ctx) = Inr (JFun f)"
  shows "factory_calls (ctx_subgraphName ctx)
           (ps_trace (snd (getTransportExecutor_resume getter ctx st)))
         = Suc (factory_calls (ctx_subgraphName ctx) (ps_trace st))"
  using assms
  by (simp add: getTransportExecutor_resume_def Let_def stack_use_def split: sum.splits)

lemma lazy_resume_factory_calls:
  assumes "factory_getter opts (kind_of (make_ctx opts s)) = Inr (JFun f)"
  shows "factory_calls s (ps_trace (snd (lazy_resume opts s req st)))
           = Suc (factory_calls s (ps_trace st))"
proof -
  obtain r st2 where g:
    "getTransportExecutor_resume (factory_getter opts) (make_ctx opts s) st = (r, st2)"
    by (cases "getTransportExecutor_resume (factory_getter opts) (make_ctx opts s) st")
  have n: "ctx_subgraphName (make_ctx opts s) = s"
    by (simp add: make_ctx_def)
  have c: "factory_calls s (ps_trace st2) = Suc (factory_calls s (ps_trace st))"
    using getTransportExecutor_resume_factory_calls
            [of "factory_getter opts" "make_ctx opts s" f st] assms g n
    by simp
  show ?thesis
  proof (cases r)
    case (Inl e)
    then show ?thesis using g c by (simp add: lazy_resume_def)
  next
    case (Inr ex)
    obtain res ex' st3 where w:
      "executorWithHooks (wrap_options_of opts s) ex req st2 = (res, ex', st3)"
      by (cases "executorWithHooks (wrap_options_of opts s) ex req st2") auto
    have "factory_calls s (ps_trace st3) = factory_calls s (ps_trace st2)"
      using executorWithHooks_factory_calls [of s "wrap_options_of opts s" ex req st2] w by simp
    then show ?thesis
      using g c Inr w by (simp add: lazy_resume_def)
  qed
qed

lemma begin_suspends:
  assumes "rs_cache st s = None \<or> rs_cache st s = Some LazyExecutor"
  shows "fst (onSubgraphExecute_begin opts s r st) = Suspended
       \<and> rs_cache (snd (onSubgraphExecute_begin opts s r st)) s = Some LazyExecutor
       \<and> factory_calls s (ps_trace (snd (onSubgraphExecute_begin opts s r st)))
           = factory_calls s (ps_trace st)"
  using assms
  by (auto simp: onSubgraphExecute_begin_def lazy_begin_def getTransportExecutor_begin_def)

lemma begin_all_suspends:
  assumes "rs_cache st s = None \<or> rs_cache st s = Some LazyExecutor"
  shows "fst (begin_all opts s reqs st) = replicate (length reqs) Suspended
       \<and> factory_calls s (ps_trace (snd (begin_all opts s reqs st))) = factory_calls s (ps_trace st)"
  using assms
proof (induction reqs arbitrary: st)
  case Nil
  then show ?case by simp
next
  case (Cons r reqs)
  obtain c st' where b: "onSubgraphExecute_begin opts s r st = (c, st')"
    by (cases "onSubgraphExecute_begin opts s r st")
  have c: "c = Suspended" "rs_cache st' s = Some LazyExecutor"
    "factory_calls s (ps_trace st') = factory_calls s (ps_trace st)"
    using begin_suspends [OF Cons.prems, of opts r] b by simp_all
  obtain ss st'' where r: "begin_all opts s reqs st' = (ss, st'')"
    by (cases "begin_all opts s reqs st'")
  have "ss = replicate (length reqs) Suspended"
    "factory_calls s (ps_trace st'') = factory_calls s (ps_trace st')"
    using Cons.IH [of st'] c(2) r by simp_all
  then show ?case
    using b c r by simp
qed

lemma resume_all_factory_calls:
  assumes "factory_getter opts (kind_of (make_ctx opts s)) = Inr (JFun f)"
  shows "factory_calls s (ps_trace (snd (resume_all opts s rs st)))
           = factory_calls s (ps_trace st) + length rs"
proof (induction rs arbitrary: st)
  case Nil
  then show ?case by simp
next
  case (Cons r rs)
  obtain out st' where b: "lazy_resume opts s r st = (out, st')"
    by (cases "lazy_resume opts s r st")
  obtain outs st'' where r: "resume_all opts s rs st' = (outs, st'')"
    by (cases "resume_all opts s rs st'")
  have "factory_calls s (ps_trace st') = Suc (factory_calls s (ps_trace st))"
    using lazy_resume_factory_calls [OF assms, of r st] b by simp
  moreover have "factory_calls s (ps_trace st'') = factory_calls s (ps_trace st') + length rs"
    using Cons.IH [of st'] r by simp
  ultimately show ?case
    using b r by simp
qed

text \<open>
  In general: when the kind resolves to a factory and no wrapped executor is cached yet,
  every call started before the first one is resumed is suspended, and every resumed call
  calls the factory once, whatever the order of resumption.
\<close>

lemma concurrent_first_calls_invoke_factory_each:
  assumes "rs_cache st s = None \<or> rs_cache st s = Some LazyExecutor"
    and "factory_getter opts (kind_of (make_ctx opts s)) = Inr (JFun f)"
  shows "fst (concurrent_calls opts s reqs resumed st) = replicate (length reqs) Suspended
       \<and> factory_calls s (ps_trace (snd (snd (concurrent_calls opts s reqs resumed st))))
           = factory_calls s (ps_trace st) + length resumed"
proof -
  obtain ss st' where b: "begin_all opts s reqs st = (ss, st')"
    by (cases "begin_all opts s reqs st")
  obtain outs st'' where r: "resume_all opts s resumed st' = (outs, st'')"
    by (cases "resume_all opts s resumed st'")
  have "ss = replicate (length reqs) Suspended"
    "factory_calls s (ps_trace st') = factory_calls s (ps_trace st)"
    using begin_all_suspends [OF assms(1), of opts reqs] b by simp_all
  moreover have "factory_calls s (ps_trace st'') = factory_calls s (ps_trace st') + length resumed"
    using resume_all_factory_calls [OF assms(2), of resumed st'] r by simp
  ultimately show ?thesis
    using b r by (simp add: concurrent_calls_def)
qed

text \<open>The definitions that evaluate a call on a concrete runtime.\<close>

lemmas cache_defs = concurrent_calls_def onSubgraphExecute_begin_def onSubgraphExecute_def
  lazy_begin_def lazy_resume_def getTransportExecutor_begin_def getTransportExecutor_resume_def
  factory_getter_def
  make_ctx_def kind_of_def context_logger_def wrap_options_of_def stack_use_def
  runtime_with_def installed_def echo_factory_def two_requests_def with_logger_def
  getTransport_def select_getSubgraphExecutor_def child_opt_def
  executorWithHooks_def attach_def execReqLogger_of_def call_executor_def Let_def

text \<open>
  C1 (the code departs from the claim). The claim: N concurrent first calls for a subgraph
  call the transport's factory once. The placeholder \<open>lazyExecutor\<close> is cached before the
  first call suspends, but every call that finds the placeholder runs
  \<open>getTransportExecutor\<close> again: two calls for \<open>my_api\<close> made in the same tick are both
  suspended at the transport resolution, and when they are resumed each calls the factory
  getter and the factory. The factory is called twice, two executors are created, and the
  one created last stays in the cache.
\<close>

theorem concurrent_first_calls_call_factory_twice:
  "fst (concurrent_calls (runtime_with installed no_module) ''my_api'' [0, 1] [0, 1] two_requests)
     = [Suspended, Suspended]
   \<and> fst (snd (concurrent_calls (runtime_with installed no_module) ''my_api'' [0, 1] [0, 1] two_requests))
     = [Inr (Unchanged (Single 0)), Inr (Unchanged (Single 1))]
   \<and> ps_trace (snd (snd (concurrent_calls (runtime_with installed no_module) ''my_api'' [0, 1] [0, 1]
        two_requests)))
     = [GetterCalled ''k'', GetterCalled ''k'',
        FactoryCalled ''k'' ''my_api'', ExecutorCalled ''my_api'' 0,
        FactoryCalled ''k'' ''my_api'', ExecutorCalled ''my_api'' 1]
   \<and> factory_calls ''my_api'' (ps_trace (snd (snd (concurrent_calls (runtime_with installed no_module)
        ''my_api'' [0, 1] [0, 1] two_requests)))) = 2"
  by (simp add: cache_defs)

lemma lazy_resume_failure:
  assumes "init_failure opts s st = Some e"
    and "rs_disposed st' = rs_disposed st" and "rs_cache st' = c"
  shows "fst (lazy_resume opts s req st') = Inl e \<and> rs_cache (snd (lazy_resume opts s req st')) = c"
proof -
  have "fst (getTransportExecutor_resume (factory_getter opts) (make_ctx opts s) st') = Inl e"
    using assms(1,2)
    by (auto simp: init_failure_def getTransportExecutor_resume_def Let_def stack_use_def
        split: sum.splits jsval.splits if_splits)
  moreover have "rs_cache (snd (getTransportExecutor_resume (factory_getter opts) (make_ctx opts s) st')) = c"
    using assms(3) by (simp add: getTransportExecutor_resume_frame)
  ultimately show ?thesis
    by (cases "getTransportExecutor_resume (factory_getter opts) (make_ctx opts s) st'")
       (simp add: lazy_resume_def)
qed

text \<open>
  C2. When no executor has been initialised for the subgraph (no cache entry, or the
  placeholder) and the initialisation fails with \<open>e\<close> (the factory resolution, the call of
  the factory or the registration of the disposable executor throws), the call fails with
  \<open>e\<close>, the cache entry is the placeholder afterwards, and the next call for the subgraph
  runs the initialisation again, whatever the environment then is.
\<close>

theorem failed_initialisation_retries:
  assumes "rs_cache st s = None \<or> rs_cache st s = Some LazyExecutor"
    and "init_failure opts s st = Some e"
  shows "fst (onSubgraphExecute opts s req st) = Inl e
       \<and> rs_cache (snd (onSubgraphExecute opts s req st)) s = Some LazyExecutor
       \<and> (\<forall>opts' req'.
            onSubgraphExecute opts' s req' (snd (onSubgraphExecute opts s req st))
              = lazy_resume opts' s req' (lazy_begin opts' s (snd (onSubgraphExecute opts s req st))))"
proof -
  obtain st1 where b: "onSubgraphExecute_begin opts s req st = (Suspended, st1)"
    "rs_cache st1 s = Some LazyExecutor" "rs_disposed st1 = rs_disposed st"
    using assms(1)
    by (auto simp: onSubgraphExecute_begin_def lazy_begin_def getTransportExecutor_begin_def)
  have r: "fst (lazy_resume opts s req st1) = Inl e"
    "rs_cache (snd (lazy_resume opts s req st1)) = rs_cache st1"
    using lazy_resume_failure [OF assms(2) b(3), of "rs_cache st1" req] by simp_all
  have o: "onSubgraphExecute opts s req st = lazy_resume opts s req st1"
    using b(1) by (simp add: onSubgraphExecute_def)
  have c: "rs_cache (snd (onSubgraphExecute opts s req st)) s = Some LazyExecutor"
    using o r(2) b(2) by simp
  show ?thesis
    using o r(1) c by (simp add: onSubgraphExecute_def onSubgraphExecute_begin_def)
qed

text \<open>
  C2 on a runtime whose transport package is missing: the first call fails with the
  transport not found error and leaves the placeholder; once the package is installed, the
  second call initialises the executor, caches it and answers.
\<close>

theorem failed_initialisation_retries_witness:
  "fst (onSubgraphExecute (runtime_with NoTransports no_module) ''my_api'' 0 two_requests)
     = Inl (Error (not_found_message ''k''))
   \<and> rs_cache (snd (onSubgraphExecute (runtime_with NoTransports no_module) ''my_api'' 0 two_requests))
        ''my_api'' = Some LazyExecutor
   \<and> fst (onSubgraphExecute (runtime_with NoTransports package_installed) ''my_api'' 1
        (snd (onSubgraphExecute (runtime_with NoTransports no_module) ''my_api'' 0 two_requests)))
     = Inr (Unchanged (Single 1))
   \<and> rs_cache (snd (onSubgraphExecute (runtime_with NoTransports package_installed) ''my_api'' 1
        (snd (onSubgraphExecute (runtime_with NoTransports no_module) ''my_api'' 0 two_requests))))
        ''my_api''
     = Some (ExecutorWithHooks (Executor ''my_api'' False (\<lambda>h a. Inr (Single a))))"
proof -
  let ?failing = "runtime_with NoTransports no_module"
  have a: "rs_cache two_requests ''my_api'' = None \<or> rs_cache two_requests ''my_api'' = Some LazyExecutor"
    by (simp add: two_requests_def)
  have b: "init_failure ?failing ''my_api'' two_requests = Some (Error (not_found_message ''k''))"
    by (simp add: init_failure_def cache_defs no_module_def)
  note t = failed_initialisation_retries [OF a b, of 0]
  have first: "fst (onSubgraphExecute ?failing ''my_api'' 0 two_requests) = Inl (Error (not_found_message ''k''))"
    and kept: "rs_cache (snd (onSubgraphExecute ?failing ''my_api'' 0 two_requests)) ''my_api'' = Some LazyExecutor"
    and again: "onSubgraphExecute (runtime_with NoTransports package_installed) ''my_api'' 1
                  (snd (onSubgraphExecute ?failing ''my_api'' 0 two_requests))
                = lazy_resume (runtime_with NoTransports package_installed) ''my_api'' 1
                    (lazy_begin (runtime_with NoTransports package_installed) ''my_api''
                       (snd (onSubgraphExecute ?failing ''my_api'' 0 two_requests)))"
    using t by blast+
  have st: "snd (onSubgraphExecute ?failing ''my_api'' 0 two_requests)
      = two_requests\<lparr>rs_cache := (rs_cache two_requests)(''my_api'' := Some LazyExecutor),
                     ps_trace := [GetterCalled ''k'']\<rparr>"
    by (simp add: cache_defs no_module_def)
  have second: "lazy_resume (runtime_with NoTransports package_installed) ''my_api'' 1
                    (lazy_begin (runtime_with NoTransports package_installed) ''my_api''
                       (two_requests\<lparr>rs_cache := (rs_cache two_requests)(''my_api'' := Some LazyExecutor),
                          ps_trace := [GetterCalled ''k'']\<rparr>))
       = (Inr (Unchanged (Single 1)),
          \<lparr>ps_heap = [RequestObj ''q1'' None None, RequestObj ''q2'' None (Some 2), InfoObj None (Some 1)],
           ps_loggerFor = (\<lambda>a. None)(1 := Some (Logger True)),
           ps_trace = [GetterCalled ''k'', GetterCalled ''k'', FactoryCalled ''k'' ''my_api'',
                       ExecutorCalled ''my_api'' 1],
           rs_cache = (\<lambda>n. None)(''my_api'' := Some (ExecutorWithHooks
                         (Executor ''my_api'' False (\<lambda>h a. Inr (Single a))))),
           rs_stack = [], rs_disposed = False\<rparr>)"
    by (simp add: cache_defs package_installed_def transport_module_def)
  show ?thesis
    using first kept again st second by simp
qed

lemma lazy_resume_cache_other:
  assumes "s' \<noteq> s"
  shows "rs_cache (snd (lazy_resume opts s req st)) s' = rs_cache st s'"
proof -
  obtain r st2 where g:
    "getTransportExecutor_resume (factory_getter opts) (make_ctx opts s) st = (r, st2)"
    by (cases "getTransportExecutor_resume (factory_getter opts) (make_ctx opts s) st")
  have c: "rs_cache st2 = rs_cache st"
    using getTransportExecutor_resume_frame(1) [of "factory_getter opts" "make_ctx opts s" st] g
    by simp
  show ?thesis
  proof (cases r)
    case (Inl e)
    then show ?thesis using g c by (simp add: lazy_resume_def)
  next
    case (Inr ex)
    obtain res ex' st3 where w:
      "executorWithHooks (wrap_options_of opts s) ex req st2 = (res, ex', st3)"
      by (cases "executorWithHooks (wrap_options_of opts s) ex req st2") auto
    have "rs_cache st3 = rs_cache st2"
      using executorWithHooks_frame(1) [of "wrap_options_of opts s" ex req st2] w by simp
    then show ?thesis
      using assms g c Inr w by (simp add: lazy_resume_def)
  qed
qed

text \<open>
  C6 (amended). \<open>compareSubgraphNames\<close> is equality of the constant-case forms. The cache
  of \<open>onSubgraphExecute\<close> and the lookup of the transport entry use the name as it is
  given: a call for one name leaves the cache entry of every other name as it was, also
  of a name with the same constant-case form.
\<close>

theorem subgraph_names_are_exact_keys:
  "compareSubgraphNames constantCase n1 n2 = (constantCase n1 = constantCase n2)
   \<and> (s' \<noteq> s \<longrightarrow> rs_cache (snd (onSubgraphExecute opts s req st)) s' = rs_cache st s')
   \<and> ctx_transportEntry (make_ctx opts s)
       = (case go_transportEntryMap opts of None \<Rightarrow> None | Some m \<Rightarrow> m s)"
proof -
  have "rs_cache (snd (onSubgraphExecute opts s req st)) s' = rs_cache st s'" if "s' \<noteq> s"
  proof (cases "rs_cache st s")
    case None
    let ?st1 = "lazy_begin opts s (st\<lparr>rs_cache := (rs_cache st)(s := Some LazyExecutor)\<rparr>)"
    have "onSubgraphExecute opts s req st = lazy_resume opts s req ?st1"
      using None by (simp add: onSubgraphExecute_def onSubgraphExecute_begin_def)
    moreover have "rs_cache (snd (lazy_resume opts s req ?st1)) s' = rs_cache ?st1 s'"
      by (rule lazy_resume_cache_other [OF that])
    moreover have "rs_cache ?st1 s' = rs_cache st s'"
      using that by (simp add: lazy_begin_def getTransportExecutor_begin_def)
    ultimately show ?thesis by simp
  next
    case (Some c)
    show ?thesis
    proof (cases c)
      case LazyExecutor
      let ?st1 = "lazy_begin opts s st"
      have "onSubgraphExecute opts s req st = lazy_resume opts s req ?st1"
        using Some LazyExecutor by (simp add: onSubgraphExecute_def onSubgraphExecute_begin_def)
      moreover have "rs_cache (snd (lazy_resume opts s req ?st1)) s' = rs_cache ?st1 s'"
        by (rule lazy_resume_cache_other [OF that])
      moreover have "rs_cache ?st1 s' = rs_cache st s'"
        by (simp add: lazy_begin_def getTransportExecutor_begin_def)
      ultimately show ?thesis by simp
    next
      case (ExecutorWithHooks ex)
      obtain res ex' st' where w:
        "executorWithHooks (wrap_options_of opts s) ex req st = (res, ex', st')"
        by (cases "executorWithHooks (wrap_options_of opts s) ex req st") auto
      have "rs_cache st' = rs_cache st"
        using executorWithHooks_frame(1) [of "wrap_options_of opts s" ex req st] w by simp
      then show ?thesis
        using that Some ExecutorWithHooks w
        by (simp add: onSubgraphExecute_def onSubgraphExecute_begin_def)
    qed
  qed
  then show ?thesis
    by (simp add: compareSubgraphNames_def make_ctx_def)
qed

text \<open>
  The amended C6 on the names \<open>my_api\<close> and \<open>MY-API\<close>, whose constant-case forms are equal.
\<close>

theorem subgraph_names_are_exact_keys_witness:
  "compareSubgraphNames constantCase_spec ''my_api'' ''MY-API''
   \<and> rs_cache (snd (onSubgraphExecute (runtime_with installed no_module) ''my_api'' 0 two_requests))
        ''MY-API'' = rs_cache two_requests ''MY-API''
   \<and> ctx_transportEntry (make_ctx (runtime_with installed no_module) ''MY-API'') = None"
  using subgraph_names_are_exact_keys [of constantCase_spec "''my_api''" "''MY-API''" "''MY-API''"
      "''my_api''" "runtime_with installed no_module" 0 two_requests]
    subgraph_names_are_exact_keys [of constantCase_spec "''my_api''" "''MY-API''" "''my_api''"
      "''MY-API''" "runtime_with installed no_module" 0 two_requests]
  by (simp add: constantCase_spec_def is_alnum_def to_upper_def runtime_with_def)

text \<open>
  C6 as stated fails: \<open>my_api\<close> and \<open>MY-API\<close> have the same constant-case form, yet after a
  call for \<open>my_api\<close> has cached its executor there is no entry for \<open>MY-API\<close>, and a call
  for \<open>MY-API\<close> finds no transport entry (the map has \<open>my_api\<close>) and fails to initialise.
\<close>

theorem equal_constant_case_distinct_keys:
  "compareSubgraphNames constantCase_spec ''my_api'' ''MY-API''
   \<and> rs_cache (snd (onSubgraphExecute (runtime_with installed no_module) ''my_api'' 0 two_requests))
        ''my_api''
      = Some (ExecutorWithHooks (Executor ''my_api'' False (\<lambda>h a. Inr (Single a))))
   \<and> rs_cache (snd (onSubgraphExecute (runtime_with installed no_module) ''my_api'' 0 two_requests))
        ''MY-API'' = None
   \<and> fst (onSubgraphExecute (runtime_with installed no_module) ''MY-API'' 1
        (snd (onSubgraphExecute (runtime_with installed no_module) ''my_api'' 0 two_requests)))
      = Inl (Error (not_found_message []))"
  by (simp add: compareSubgraphNames_def constantCase_spec_def is_alnum_def to_upper_def
      cache_defs no_module_def)

section \<open>Properties of the schema comparison\<close>

text \<open>
  C5 (amended). \<open>compareSchemas(a, b)\<close> is true exactly when the comparison strings of
  \<open>a\<close> and \<open>b\<close> are equal: for a document node and for a schema that is the canonical
  printed form (\<open>print\<close>, \<open>printSchemaWithDirectives\<close>), for an SDL string it is the string
  itself, which is neither parsed nor printed.
\<close>

theorem compareSchemas_compares_printed_forms:
  "compareSchemas print_document printSchemaWithDirectives a b
     = ((case a of
           SDLString s \<Rightarrow> s
         | DocumentNode d \<Rightarrow> spec_canonical_form parse_document print_document printSchemaWithDirectives a
         | SchemaObject g \<Rightarrow> spec_canonical_form parse_document print_document printSchemaWithDirectives a)
        = (case b of
             SDLString s \<Rightarrow> s
           | DocumentNode d \<Rightarrow> spec_canonical_form parse_document print_document printSchemaWithDirectives b
           | SchemaObject g \<Rightarrow> spec_canonical_form parse_document print_document printSchemaWithDirectives b))"
  by (cases a; cases b) (simp_all add: compareSchemas_def spec_canonical_form_def)

text \<open>
  C5 as stated fails on SDL strings: two strings that differ in one blank have the same
  canonical printed form under a parser that ignores blanks, and \<open>compareSchemas\<close>
  returns false for them.
\<close>

theorem compareSchemas_strings_differing_in_blanks:
  "spec_canonical_form drop_blanks id id (SDLString ''type Query { a: Int }'')
     = spec_canonical_form drop_blanks id id (SDLString ''type Query {a: Int}'')
   \<and> \<not> compareSchemas id id (SDLString ''type Query { a: Int }'') (SDLString ''type Query {a: Int}'')"
  by (simp add: compareSchemas_def spec_canonical_form_def drop_blanks_def)

section \<open>Properties of the stitching merger\<close>







text \<open>
  The preparation of a federated source without \<open>link\<close> metadata whose executor answers
  the SDL query with errors, when the store runs the function: it fails with the aggregate
  error, and its only event is the query.
\<close>

lemma prepare_source_fails_on_errors:
  assumes "answers_with_errors src errs"
    and "ms_proxy st (src_name src @ ''_stitching'') = Runs"
  shows "prepare_source env src st
     = (Inl (AggregateError errs (fetch_failed_message (src_name src))),
        st\<lparr>ms_trace := ms_trace st @ [SdlQueried (src_name src) errs]\<rparr>)"
proof -
  obtain r where r: "src_executor src APOLLO_GET_SERVICE_DEFINITION_QUERY = Inr r"
    "errors_of r = errs" "errs \<noteq> []"
    using assms(1)
    by (cases "src_executor src APOLLO_GET_SERVICE_DEFINITION_QUERY")
       (auto simp: answers_with_errors_def returns_errors_def)
  have f: "fetch_stitching_schema env (src_name src) (src_schema src) (src_executor src) tr
      = (Inl (AggregateError errs (fetch_failed_message (src_name src))),
         tr @ [SdlQueried (src_name src) errs])" for tr
    using assms(1) r by (simp add: fetch_stitching_schema_def answers_with_errors_def)
  have g: "replaceFederationSDLWithStitchingSDL env (src_name src) (src_schema src)
        (src_executor src) st
      = (Inl (AggregateError errs (fetch_failed_message (src_name src))),
         st\<lparr>ms_trace := ms_trace st @ [SdlQueried (src_name src) errs]\<rparr>)"
    using assms(2) f by (simp add: replaceFederationSDLWithStitchingSDL_def Let_def)
  show ?thesis
    using assms(1) g
    by (cases "src_batch src")
       (simp_all add: prepare_source_def answers_with_errors_def Let_def)
qed





end
